theory Spec2Isabelle
  imports Main "HOL-Library.Sublist" "HOL-Library.AList" "HOL-Library.Char_ord"
    "HOL-Library.List_Lexorder"
begin

section \<open>JavaScript values, texts and faults\<close>

text \<open>
  The three source files hold four request handlers over two storage bindings:
  \<^item> \<open>functions/api/notes.js\<close>, first part: \<open>onRequest(context)\<close>, a Pages Function over
    the D1 database binding \<open>NOTES_DB\<close>;
  \<^item> \<open>functions/api/notes.js\<close>, second part: \<open>handleRequest\<close> and \<open>fetch\<close>, a Pages Worker
    over the same D1 binding;
  \<^item> \<open>functions/worker.js\<close>: \<open>onRequest\<close>, a Pages Function over the KV binding \<open>NOTES_KV\<close>;
  \<^item> the unnamed file: \<open>fetch\<close>, a standard Worker over the KV binding.

  Values that went through \<open>JSON.parse\<close> are JSON values; JavaScript's \<open>undefined\<close> is
  \<open>None\<close> of \<open>json option\<close>. Numbers are integers (the program's own numbers are
  \<open>Date.now()\<close> timestamps). Strings are byte strings: non-ASCII literals of the sources
  are written as their UTF-8 bytes.
\<close>

datatype json =
    JNull
  | JBool bool
  | JNum int
  | JStr string
  | JArr "json list"
  | JObj "(string \<times> json) list"

text \<open>
  A blob is a string that the program only ever tests for emptiness and hands to
  \<open>JSON.parse\<close>: the empty string, a string that \<open>JSON.parse\<close> accepts (identified by
  the value it parses to, which is therefore in the form \<open>JSON.parse\<close> gives: one value
  for each property name of an object, numbers as they are read), or a non-empty string
  that \<open>JSON.parse\<close> rejects (identified by the message of the \<open>SyntaxError\<close>).
  Request bodies, response bodies and the values of the KV namespace are blobs.
\<close>

datatype blob = Empty | Stringified json | Unparseable string

datatype fault = SyntaxError string | TypeError string | Error string

fun message :: "fault \<Rightarrow> string" where
  "message (SyntaxError m) = m"
| "message (TypeError m) = m"
| "message (Error m) = m"

fun JSON_parse :: "blob \<Rightarrow> fault + json" where
  "JSON_parse Empty = Inl (SyntaxError ''Unexpected end of JSON input'')"
| "JSON_parse (Stringified v) = Inr v"
| "JSON_parse (Unparseable m) = Inl (SyntaxError m)"

definition JSON_stringify :: "json \<Rightarrow> blob" where
  "JSON_stringify v = Stringified v"

text \<open>Truthiness, as \<open>!x\<close> and \<open>x || y\<close> test it.\<close>

fun truthy :: "json option \<Rightarrow> bool" where
  "truthy None = False"
| "truthy (Some JNull) = False"
| "truthy (Some (JBool b)) = b"
| "truthy (Some (JNum n)) = (n \<noteq> 0)"
| "truthy (Some (JStr s)) = (s \<noteq> [])"
| "truthy (Some (JArr xs)) = True"
| "truthy (Some (JObj kvs)) = True"

text \<open>A value that is a string or \<open>null\<close>: a header read by \<open>headers.get\<close>, a route group.\<close>

fun str_truthy :: "string option \<Rightarrow> bool" where
  "str_truthy None = False"
| "str_truthy (Some s) = (s \<noteq> [])"

text \<open>The result of \<open>NOTES_KV.get\<close>: a blob or \<open>null\<close>.\<close>

fun blob_truthy :: "blob option \<Rightarrow> bool" where
  "blob_truthy None = False"
| "blob_truthy (Some Empty) = False"
| "blob_truthy (Some (Stringified v)) = True"
| "blob_truthy (Some (Unparseable m)) = True"

text \<open>\<open>x ?? y\<close> takes \<open>y\<close> when \<open>x\<close> is \<open>undefined\<close> or \<open>null\<close>.\<close>

fun nullish :: "json option \<Rightarrow> bool" where
  "nullish None = True"
| "nullish (Some JNull) = True"
| "nullish (Some v) = False"

fun is_string :: "json option \<Rightarrow> bool" where
  "is_string (Some (JStr s)) = True"
| "is_string v = False"

text \<open>
  Reading a property of a value by member access (\<open>existingNote.content\<close>,
  \<open>updateResult.changes\<close>): \<open>null\<close> raises a \<open>TypeError\<close>, an object gives the property
  or \<open>undefined\<close>, and booleans, numbers, strings and arrays have no property of the
  names the sources read (\<open>title\<close>, \<open>content\<close>, \<open>changes\<close>).
\<close>

fun get_prop :: "json \<Rightarrow> string \<Rightarrow> fault + json option" where
  "get_prop JNull k =
     Inl (TypeError (''Cannot read properties of null (reading '' @ [CHR 0x27] @ k
            @ [CHR 0x27] @ '')''))"
| "get_prop (JObj kvs) k = Inr (map_of kvs k)"
| "get_prop v k = Inr None"

text \<open>
  Reading a property by a destructuring pattern (\<open>const { content } = await
  request.json()\<close>): the same, with the \<open>TypeError\<close> of a pattern.
\<close>

fun destructure :: "json \<Rightarrow> string \<Rightarrow> fault + json option" where
  "destructure JNull k =
     Inl (TypeError (''Cannot destructure property '' @ [CHR 0x27] @ k @ [CHR 0x27]
            @ '' of '(intermediate value)' as it is null.''))"
| "destructure (JObj kvs) k = Inr (map_of kvs k)"
| "destructure v k = Inr None"

text \<open>Decimal digits of an index, for the keys that spreading an array or a string gives.\<close>

function decimal :: "nat \<Rightarrow> string" where
  "decimal n = (if n < 10 then [''0123456789'' ! n]
                else decimal (n div 10) @ [''0123456789'' ! (n mod 10)])"
  by pat_completeness auto
termination
  by (relation "measure (\<lambda>n. n)") auto

declare decimal.simps [simp del]

text \<open>
  \<open>{...v}\<close>: the own enumerable properties of \<open>v\<close>. An object gives its properties, an
  array and a string their indexed elements, every other value nothing.
\<close>

fun spread :: "json \<Rightarrow> (string \<times> json) list" where
  "spread (JObj kvs) = kvs"
| "spread (JArr xs) = zip (map decimal [0..<length xs]) xs"
| "spread (JStr s) = zip (map decimal [0..<length s]) (map (\<lambda>c. JStr [c]) s)"
| "spread v = []"

text \<open>
  A property written in an object literal after a spread. A property whose value is
  \<open>undefined\<close> is left out by \<open>JSON.stringify\<close>, and every object built by the program
  is serialised at once, so such a property is dropped where it is written.
\<close>

fun set_prop :: "string \<Rightarrow> json option \<Rightarrow> (string \<times> json) list \<Rightarrow> (string \<times> json) list" where
  "set_prop k None kvs = AList.delete k kvs"
| "set_prop k (Some v) kvs = AList.update k v kvs"

section \<open>Requests, responses and outcomes\<close>

text \<open>
  A request: its method, the \<open>pathname\<close> of its URL, its headers (under the names the
  sources read them by) and its body.
\<close>

record request =
  request_method :: string
  pathname :: string
  headers :: "(string \<times> string) list"
  body :: blob

text \<open>
  \<open>headers.get(name)\<close>: the value without the HTTP whitespace around it, or \<open>null\<close>.
\<close>

definition http_whitespace :: "char \<Rightarrow> bool" where
  "http_whitespace c = (c = CHR 0x20 \<or> c = CHR 0x09 \<or> c = CHR 0x0A \<or> c = CHR 0x0D)"

definition strip :: "string \<Rightarrow> string" where
  "strip v = rev (dropWhile http_whitespace (rev (dropWhile http_whitespace v)))"

definition headers_get :: "request \<Rightarrow> string \<Rightarrow> string option" where
  "headers_get req name = map_option strip (map_of (headers req) name)"

definition request_json :: "request \<Rightarrow> fault + json" where
  "request_json req = JSON_parse (body req)"

text \<open>\<open>crypto.randomUUID()\<close> and \<open>Date.now()\<close>, as the values they give during the request.\<close>

record ambient =
  randomUUID :: string
  Date_now :: int

record response =
  status :: nat
  response_headers :: "(string \<times> string) list"
  response_body :: blob

text \<open>
  What a handler gives to the platform: a response, \<open>undefined\<close> (the platform then
  serves the static assets), or a fault that nothing caught.
\<close>

datatype outcome = Responded response | NotHandled | Threw fault

text \<open>
  \<open>jsonResponse(data, status)\<close>. The three files differ in the headers they set and in
  the property that carries an error message, so both are arguments here.
\<close>

definition jsonResponse :: "(string \<times> string) list \<Rightarrow> json \<Rightarrow> nat \<Rightarrow> response" where
  "jsonResponse hs data st =
     \<lparr>status = st, response_headers = hs, response_body = JSON_stringify data\<rparr>"

definition cors_headers :: "(string \<times> string) list" where
  "cors_headers =
     [(''Content-Type'', ''application/json''), (''Access-Control-Allow-Origin'', ''*'')]"

definition plain_headers :: "(string \<times> string) list" where
  "plain_headers = [(''Content-Type'', ''application/json'')]"

text \<open>
  An object literal, read left to right over the properties of a spread (or over nothing).
\<close>

definition object_literal ::
  "(string \<times> json option) list \<Rightarrow> (string \<times> json) list \<Rightarrow> (string \<times> json) list" where
  "object_literal props base = foldl (\<lambda>obj (k, v). set_prop k v obj) base props"

section \<open>The KV binding\<close>

text \<open>
  The namespace \<open>NOTES_KV\<close> of the platform: its entries, the calls made on it so far, and
  whether it is out of order (each call then rejects with an \<open>Error\<close> of that message).
  \<open>list\<close> gives the keys that start with the prefix, in byte order, at most 1000 of them;
  the sources never ask for a further page. \<open>put\<close> refuses a key of more than 512 bytes.
\<close>

datatype kv_call = KvList string | KvGet string | KvPut string blob | KvDelete string

record kv_namespace =
  entries :: "(string \<times> blob) list"
  kv_calls :: "kv_call list"
  kv_outage :: "string option"

definition kv_called :: "kv_call \<Rightarrow> kv_namespace \<Rightarrow> kv_namespace" where
  "kv_called c env = env\<lparr>kv_calls := kv_calls env @ [c]\<rparr>"

definition NOTES_KV_list :: "string \<Rightarrow> kv_namespace \<Rightarrow> (fault + string list) \<times> kv_namespace" where
  "NOTES_KV_list p env =
     (case kv_outage env of
        Some m \<Rightarrow> (Inl (Error m), kv_called (KvList p) env)
      | None \<Rightarrow>
          (Inr (take 1000 (sort (remdups (filter (prefix p) (map fst (entries env)))))),
           kv_called (KvList p) env))"

definition NOTES_KV_get :: "string \<Rightarrow> kv_namespace \<Rightarrow> (fault + blob option) \<times> kv_namespace" where
  "NOTES_KV_get k env =
     (case kv_outage env of
        Some m \<Rightarrow> (Inl (Error m), kv_called (KvGet k) env)
      | None \<Rightarrow> (Inr (map_of (entries env) k), kv_called (KvGet k) env))"

definition NOTES_KV_put :: "string \<Rightarrow> blob \<Rightarrow> kv_namespace \<Rightarrow> (fault + unit) \<times> kv_namespace" where
  "NOTES_KV_put k v env =
     (case kv_outage env of
        Some m \<Rightarrow> (Inl (Error m), kv_called (KvPut k v) env)
      | None \<Rightarrow>
          if 512 < length k
          then (Inl (Error (''KV PUT failed: 414 UTF-8 encoded length of '' @ decimal (length k)
                      @ '' exceeds key length limit of 512.'')),
                kv_called (KvPut k v) env)
          else (Inr (),
                kv_called (KvPut k v) (env\<lparr>entries := AList.update k v (entries env)\<rparr>)))"

definition NOTES_KV_delete :: "string \<Rightarrow> kv_namespace \<Rightarrow> (fault + unit) \<times> kv_namespace" where
  "NOTES_KV_delete k env =
     (case kv_outage env of
        Some m \<Rightarrow> (Inl (Error m), kv_called (KvDelete k) env)
      | None \<Rightarrow>
          (Inr (), kv_called (KvDelete k) (env\<lparr>entries := AList.delete k (entries env)\<rparr>)))"

section \<open>The key/value handlers\<close>

text \<open>The messages of \<open>functions/worker.js\<close> and of the unnamed file, as UTF-8 bytes.\<close>

definition msg_missing_token :: string where
  "msg_missing_token = [
     CHR 0xE7, CHR 0xBC, CHR 0xBA, CHR 0xE5, CHR 0xB0, CHR 0x91, CHR 0xE4, CHR 0xBD,
     CHR 0xBF, CHR 0xE7, CHR 0x94, CHR 0xA8, CHR 0xE8, CHR 0x80, CHR 0x85, CHR 0xE6,
     CHR 0x86, CHR 0x91, CHR 0xE8, CHR 0xAD, CHR 0x89] @ '' (X-User-Token)''"

definition msg_missing_credential :: string where
  "msg_missing_credential = [
     CHR 0xE7, CHR 0xBC, CHR 0xBA, CHR 0xE5, CHR 0xB0, CHR 0x91, CHR 0xE4, CHR 0xBD,
     CHR 0xBF, CHR 0xE7, CHR 0x94, CHR 0xA8, CHR 0xE8, CHR 0x80, CHR 0x85, CHR 0xE6,
     CHR 0x86, CHR 0x91, CHR 0xE8, CHR 0xAD, CHR 0x89]"

definition msg_content_string :: string where
  "msg_content_string = [
     CHR 0xE5, CHR 0x85, CHR 0xA7, CHR 0xE5, CHR 0xAE, CHR 0xB9, CHR 0xE5, CHR 0xBF,
     CHR 0x85, CHR 0xE9, CHR 0xA0, CHR 0x88, CHR 0xE6, CHR 0x98, CHR 0xAF, CHR 0xE5,
     CHR 0xAD, CHR 0x97, CHR 0xE4, CHR 0xB8, CHR 0xB2]"

definition msg_update_missing :: string where
  "msg_update_missing = [
     CHR 0xE6, CHR 0x89, CHR 0xBE, CHR 0xE4, CHR 0xB8, CHR 0x8D, CHR 0xE5, CHR 0x88,
     CHR 0xB0, CHR 0xE8, CHR 0xA6, CHR 0x81, CHR 0xE6, CHR 0x9B, CHR 0xB4, CHR 0xE6,
     CHR 0x96, CHR 0xB0, CHR 0xE7, CHR 0x9A, CHR 0x84, CHR 0xE7, CHR 0xAD, CHR 0x86,
     CHR 0xE8, CHR 0xA8, CHR 0x98]"

definition msg_delete_missing :: string where
  "msg_delete_missing = [
     CHR 0xE6, CHR 0x89, CHR 0xBE, CHR 0xE4, CHR 0xB8, CHR 0x8D, CHR 0xE5, CHR 0x88,
     CHR 0xB0, CHR 0xE8, CHR 0xA6, CHR 0x81, CHR 0xE5, CHR 0x88, CHR 0xAA, CHR 0xE9,
     CHR 0x99, CHR 0xA4, CHR 0xE7, CHR 0x9A, CHR 0x84, CHR 0xE7, CHR 0xAD, CHR 0x86,
     CHR 0xE8, CHR 0xA8, CHR 0x98]"

definition msg_no_route :: string where
  "msg_no_route = ''API '' @ [
     CHR 0xE8, CHR 0xB7, CHR 0xAF, CHR 0xE7, CHR 0x94, CHR 0xB1, CHR 0xE4, CHR 0xB8,
     CHR 0x8D, CHR 0xE5, CHR 0xAD, CHR 0x98, CHR 0xE5, CHR 0x9C, CHR 0xA8, CHR 0xE6,
     CHR 0x88, CHR 0x96, CHR 0xE6, CHR 0x96, CHR 0xB9, CHR 0xE6, CHR 0xB3, CHR 0x95,
     CHR 0xE4, CHR 0xB8, CHR 0x8D, CHR 0xE5, CHR 0x85, CHR 0x81, CHR 0xE8, CHR 0xA8,
     CHR 0xB1]"

definition msg_no_resource :: string where
  "msg_no_resource = [
     CHR 0xE6, CHR 0x89, CHR 0xBE, CHR 0xE4, CHR 0xB8, CHR 0x8D, CHR 0xE5, CHR 0x88,
     CHR 0xB0, CHR 0xE8, CHR 0xB3, CHR 0x87, CHR 0xE6, CHR 0xBA, CHR 0x90]"

definition kv_errorResponse :: "(string \<times> string) list \<Rightarrow> string \<Rightarrow> nat \<Rightarrow> response" where
  "kv_errorResponse hs msg st = jsonResponse hs (JObj [(''error'', JStr msg)]) st"

definition getUserId :: "request \<Rightarrow> string option" where
  "getUserId req = headers_get req ''X-User-Token''"

definition note_key :: "string \<Rightarrow> string \<Rightarrow> string" where
  "note_key userId noteId = ''notes:'' @ userId @ '':'' @ noteId"

text \<open>
  The bodies of \<open>handleListNotes\<close>, \<open>handleCreateNote\<close> and \<open>handleUpdateNote\<close> are the
  same text in both key/value files, after the identity check that
  \<open>functions/worker.js\<close> makes in each handler and the unnamed file makes once in
  \<open>fetch\<close>. They are modelled once, over the response headers of the file.
\<close>

fun list_loop :: "string list \<Rightarrow> json list \<Rightarrow> kv_namespace \<Rightarrow> (fault + json list) \<times> kv_namespace" where
  "list_loop [] notes env = (Inr notes, env)"
| "list_loop (k # ks) notes env =
     (case NOTES_KV_get k env of
        (Inl e, env1) \<Rightarrow> (Inl e, env1)
      | (Inr noteContent, env1) \<Rightarrow>
          (case noteContent of
             None \<Rightarrow> list_loop ks notes env1
           | Some t \<Rightarrow>
               if \<not> blob_truthy (Some t) then list_loop ks notes env1
               else (case JSON_parse t of
                       Inl e \<Rightarrow> (Inl e, env1)
                     | Inr v \<Rightarrow> list_loop ks (notes @ [v]) env1)))"

definition listNotes :: "(string \<times> string) list \<Rightarrow> kv_namespace \<Rightarrow> string \<Rightarrow> outcome \<times> kv_namespace" where
  "listNotes hs env userId =
     (case NOTES_KV_list (''notes:'' @ userId @ '':'') env of
        (Inl e, env1) \<Rightarrow> (Threw e, env1)
      | (Inr keys, env1) \<Rightarrow>
          (case list_loop keys [] env1 of
             (Inl e, env2) \<Rightarrow> (Threw e, env2)
           | (Inr notes, env2) \<Rightarrow> (Responded (jsonResponse hs (JArr notes) 200), env2)))"

definition createNote ::
  "(string \<times> string) list \<Rightarrow> ambient \<Rightarrow> request \<Rightarrow> kv_namespace \<Rightarrow> string \<Rightarrow> outcome \<times> kv_namespace" where
  "createNote hs amb req env userId =
     (case request_json req of
        Inl e \<Rightarrow> (Threw e, env)
      | Inr b \<Rightarrow>
          (case destructure b ''content'' of
             Inl e \<Rightarrow> (Threw e, env)
           | Inr content \<Rightarrow>
               if \<not> is_string content
               then (Responded (kv_errorResponse hs msg_content_string 400), env)
               else
                 (let noteId = randomUUID amb;
                      timestamp = Date_now amb;
                      newNote = JObj (object_literal
                        [(''id'', Some (JStr noteId)), (''content'', content),
                         (''createdAt'', Some (JNum timestamp)),
                         (''updatedAt'', Some (JNum timestamp))] []);
                      key = note_key userId noteId
                  in case NOTES_KV_put key (JSON_stringify newNote) env of
                       (Inl e, env1) \<Rightarrow> (Threw e, env1)
                     | (Inr u, env1) \<Rightarrow> (Responded (jsonResponse hs newNote 201), env1))))"

text \<open>
  The literal \<open>{...existingNote, content: content ?? existingNote.content, updatedAt:
  Date.now()}\<close> of \<open>handleUpdateNote\<close>, over the value that \<open>??\<close> gave.
\<close>

definition updatedNote :: "ambient \<Rightarrow> json \<Rightarrow> json option \<Rightarrow> json" where
  "updatedNote amb existingNote merged =
     JObj (object_literal
       [(''content'', merged), (''updatedAt'', Some (JNum (Date_now amb)))]
       (spread existingNote))"

definition updateNote ::
  "(string \<times> string) list \<Rightarrow> ambient \<Rightarrow> request \<Rightarrow> kv_namespace \<Rightarrow> string \<Rightarrow> string
     \<Rightarrow> outcome \<times> kv_namespace" where
  "updateNote hs amb req env userId noteId =
     (let key = note_key userId noteId in
      case NOTES_KV_get key env of
        (Inl e, env1) \<Rightarrow> (Threw e, env1)
      | (Inr existingNoteJSON, env1) \<Rightarrow>
          (case existingNoteJSON of
             None \<Rightarrow> (Responded (kv_errorResponse hs msg_update_missing 404), env1)
           | Some t \<Rightarrow>
               if \<not> blob_truthy (Some t)
               then (Responded (kv_errorResponse hs msg_update_missing 404), env1)
               else
                 (case JSON_parse t of
                    Inl e \<Rightarrow> (Threw e, env1)
                  | Inr existingNote \<Rightarrow>
                      (case request_json req of
                         Inl e \<Rightarrow> (Threw e, env1)
                       | Inr b \<Rightarrow>
                           (case destructure b ''content'' of
                              Inl e \<Rightarrow> (Threw e, env1)
                            | Inr content \<Rightarrow>
                                (case (if nullish content then get_prop existingNote ''content''
                                       else Inr content) of
                                   Inl e \<Rightarrow> (Threw e, env1)
                                 | Inr merged \<Rightarrow>
                                     (let note = updatedNote amb existingNote merged
                                      in case NOTES_KV_put key (JSON_stringify note) env1 of
                                           (Inl e, env2) \<Rightarrow> (Threw e, env2)
                                         | (Inr u, env2) \<Rightarrow>
                                             (Responded (jsonResponse hs note 200), env2))))))))"

subsection \<open>The unnamed file: a standard Worker\<close>

definition sw_handleListNotes :: "kv_namespace \<Rightarrow> string \<Rightarrow> outcome \<times> kv_namespace" where
  "sw_handleListNotes env userId = listNotes cors_headers env userId"

definition sw_handleCreateNote ::
  "ambient \<Rightarrow> request \<Rightarrow> kv_namespace \<Rightarrow> string \<Rightarrow> outcome \<times> kv_namespace" where
  "sw_handleCreateNote amb req env userId = createNote cors_headers amb req env userId"

definition sw_handleUpdateNote ::
  "ambient \<Rightarrow> request \<Rightarrow> kv_namespace \<Rightarrow> string \<Rightarrow> string \<Rightarrow> outcome \<times> kv_namespace" where
  "sw_handleUpdateNote amb req env userId noteId =
     updateNote cors_headers amb req env userId noteId"

definition sw_handleDeleteNote :: "kv_namespace \<Rightarrow> string \<Rightarrow> string \<Rightarrow> outcome \<times> kv_namespace" where
  "sw_handleDeleteNote env userId noteId =
     (let key = note_key userId noteId in
      case NOTES_KV_delete key env of
        (Inl e, env1) \<Rightarrow> (Threw e, env1)
      | (Inr u, env1) \<Rightarrow>
          (Responded (jsonResponse cors_headers (JObj [(''success'', JBool True)]) 200), env1))"

text \<open>
  The item route \<open>/^\/api\/notes\/([a-fA-F0-9-]{36})$/\<close> of both key/value files: the
  captured identifier, or nothing when the path does not match.
\<close>

definition hex_or_hyphen :: "char \<Rightarrow> bool" where
  "hex_or_hyphen c = (c \<in> set ''abcdefABCDEF0123456789-'')"

definition match_uuid_path :: "string \<Rightarrow> string option" where
  "match_uuid_path path =
     (if prefix ''/api/notes/'' path \<and> length (drop 11 path) = 36
         \<and> list_all hex_or_hyphen (drop 11 path)
      then Some (drop 11 path) else None)"

definition sw_unmatched :: "string \<Rightarrow> response" where
  "sw_unmatched path =
     (if prefix ''/api/'' path then kv_errorResponse cors_headers msg_no_route 404
      else kv_errorResponse cors_headers msg_no_resource 404)"

definition sw_fetch :: "ambient \<Rightarrow> request \<Rightarrow> kv_namespace \<Rightarrow> outcome \<times> kv_namespace" where
  "sw_fetch amb req env =
     (let path = pathname req; meth = request_method req; userId = getUserId req in
      if \<not> str_truthy userId
      then (Responded (kv_errorResponse cors_headers msg_missing_token 401), env)
      else if path = ''/api/notes'' \<and> meth = ''GET''
      then sw_handleListNotes env (the userId)
      else if path = ''/api/notes'' \<and> meth = ''POST''
      then sw_handleCreateNote amb req env (the userId)
      else
        (case match_uuid_path path of
           Some noteId \<Rightarrow>
             if meth = ''PUT'' then sw_handleUpdateNote amb req env (the userId) noteId
             else if meth = ''DELETE'' then sw_handleDeleteNote env (the userId) noteId
             else (Responded (sw_unmatched path), env)
         | None \<Rightarrow> (Responded (sw_unmatched path), env)))"

subsection \<open>functions/worker.js: a Pages Function\<close>

definition pf_handleListNotes :: "request \<Rightarrow> kv_namespace \<Rightarrow> outcome \<times> kv_namespace" where
  "pf_handleListNotes req env =
     (let userId = getUserId req in
      if \<not> str_truthy userId
      then (Responded (kv_errorResponse plain_headers msg_missing_token 401), env)
      else listNotes plain_headers env (the userId))"

definition pf_handleCreateNote :: "ambient \<Rightarrow> request \<Rightarrow> kv_namespace \<Rightarrow> outcome \<times> kv_namespace" where
  "pf_handleCreateNote amb req env =
     (let userId = getUserId req in
      if \<not> str_truthy userId
      then (Responded (kv_errorResponse plain_headers msg_missing_credential 401), env)
      else createNote plain_headers amb req env (the userId))"

definition pf_handleUpdateNote ::
  "ambient \<Rightarrow> request \<Rightarrow> kv_namespace \<Rightarrow> string \<Rightarrow> outcome \<times> kv_namespace" where
  "pf_handleUpdateNote amb req env noteId =
     (let userId = getUserId req in
      if \<not> str_truthy userId
      then (Responded (kv_errorResponse plain_headers msg_missing_credential 401), env)
      else updateNote plain_headers amb req env (the userId) noteId)"

definition pf_handleDeleteNote :: "request \<Rightarrow> kv_namespace \<Rightarrow> string \<Rightarrow> outcome \<times> kv_namespace" where
  "pf_handleDeleteNote req env noteId =
     (let userId = getUserId req in
      if \<not> str_truthy userId
      then (Responded (kv_errorResponse plain_headers msg_missing_credential 401), env)
      else
        (let key = note_key (the userId) noteId in
         case NOTES_KV_get key env of
           (Inl e, env1) \<Rightarrow> (Threw e, env1)
         | (Inr existingNote, env1) \<Rightarrow>
             if \<not> blob_truthy existingNote
             then (Responded (kv_errorResponse plain_headers msg_delete_missing 404), env1)
             else
               (case NOTES_KV_delete key env1 of
                  (Inl e, env2) \<Rightarrow> (Threw e, env2)
                | (Inr u, env2) \<Rightarrow>
                    (Responded
                       (jsonResponse plain_headers (JObj [(''success'', JBool True)]) 200),
                     env2))))"

definition pf_onRequest :: "ambient \<Rightarrow> request \<Rightarrow> kv_namespace \<Rightarrow> outcome \<times> kv_namespace" where
  "pf_onRequest amb req env =
     (let path = pathname req in
      if path = ''/api/notes'' \<and> request_method req = ''GET''
      then pf_handleListNotes req env
      else if path = ''/api/notes'' \<and> request_method req = ''POST''
      then pf_handleCreateNote amb req env
      else
        (case match_uuid_path path of
           Some noteId \<Rightarrow>
             if request_method req = ''PUT'' then pf_handleUpdateNote amb req env noteId
             else if request_method req = ''DELETE'' then pf_handleDeleteNote req env noteId
             else (Responded (kv_errorResponse plain_headers msg_no_route 404), env)
         | None \<Rightarrow> (Responded (kv_errorResponse plain_headers msg_no_route 404), env)))"

section \<open>The D1 binding\<close>

text \<open>
  The database \<open>NOTES_DB\<close> of the platform with its one table \<open>notes\<close>: the rows, the
  statements run so far, and whether the database is out of order (each statement then
  rejects with an \<open>Error\<close> of that message). The schema is not part of the sources: the
  table puts no constraint on its rows, and a column holds the value that was bound.
\<close>

datatype sqlval = SNull | SInt int | SText string | SBlob "int list"

record note_row =
  row_id :: string
  row_user_session_id :: string
  row_title :: sqlval
  row_content :: sqlval
  row_created_at :: int

datatype d1_call = D1Select | D1Insert | D1Update | D1Delete

record d1_database =
  notes_table :: "note_row list"
  d1_calls :: "d1_call list"
  d1_outage :: "string option"

definition d1_called :: "d1_call \<Rightarrow> d1_database \<Rightarrow> d1_database" where
  "d1_called c db = db\<lparr>d1_calls := d1_calls db @ [c]\<rparr>"

text \<open>
  \<open>String(v)\<close>, as a template literal prints a value: an array joins its elements with
  commas, \<open>null\<close> among them as nothing. (Numbers print as decimal digits, which is what
  JavaScript prints for integers below \<open>10^21\<close>.)
\<close>

fun js_String :: "json \<Rightarrow> string" and js_join :: "json list \<Rightarrow> string" where
  "js_String JNull = ''null''"
| "js_String (JBool b) = (if b then ''true'' else ''false'')"
| "js_String (JNum n) = (if n < 0 then ''-'' @ decimal (nat (- n)) else decimal (nat n))"
| "js_String (JStr s) = s"
| "js_String (JArr xs) = js_join xs"
| "js_String (JObj kvs) = ''[object Object]''"
| "js_join [] = []"
| "js_join [x] = (if x = JNull then [] else js_String x)"
| "js_join (x # y # ys) = (if x = JNull then [] else js_String x) @ '','' @ js_join (y # ys)"

text \<open>
  \<open>bind\<close> takes \<open>null\<close>, numbers, strings, booleans (stored as 0 and 1) and arrays of
  bytes (stored as a BLOB); it rejects every other value with an \<open>Error\<close> before anything
  is sent to the database.
\<close>

definition D1_TYPE_ERROR :: "string \<Rightarrow> string \<Rightarrow> fault" where
  "D1_TYPE_ERROR ty v =
     Error (''D1_TYPE_ERROR: Type '' @ [CHR 0x27] @ ty @ [CHR 0x27]
              @ '' not supported for value '' @ [CHR 0x27] @ v @ [CHR 0x27])"

fun is_byte :: "json \<Rightarrow> bool" where
  "is_byte (JNum n) = (0 \<le> n \<and> n < 256)"
| "is_byte v = False"

fun byte_of :: "json \<Rightarrow> int" where
  "byte_of (JNum n) = n"
| "byte_of v = 0"

fun d1_bind :: "json option \<Rightarrow> fault + sqlval" where
  "d1_bind None = Inl (D1_TYPE_ERROR ''undefined'' ''undefined'')"
| "d1_bind (Some JNull) = Inr SNull"
| "d1_bind (Some (JBool b)) = Inr (SInt (if b then 1 else 0))"
| "d1_bind (Some (JNum n)) = Inr (SInt n)"
| "d1_bind (Some (JStr s)) = Inr (SText s)"
| "d1_bind (Some (JArr xs)) =
     (if list_all is_byte xs then Inr (SBlob (map byte_of xs))
      else Inl (D1_TYPE_ERROR ''object'' (js_String (JArr xs))))"
| "d1_bind (Some (JObj kvs)) = Inl (D1_TYPE_ERROR ''object'' (js_String (JObj kvs)))"

fun json_of_sql :: "sqlval \<Rightarrow> json" where
  "json_of_sql SNull = JNull"
| "json_of_sql (SInt n) = JNum n"
| "json_of_sql (SText s) = JStr s"
| "json_of_sql (SBlob bs) = JArr (map JNum bs)"

text \<open>
  The object that \<open>run()\<close> resolves to: \<open>success\<close>, \<open>meta\<close> and \<open>results\<close>. The number
  of rows the statement changed is \<open>meta.changes\<close> (the other properties of \<open>meta\<close> are
  left out); the object has no property \<open>changes\<close> of its own.
\<close>

definition D1Result :: "nat \<Rightarrow> json" where
  "D1Result changed =
     JObj [(''success'', JBool True),
           (''meta'', JObj [(''changes'', JNum (int changed))]),
           (''results'', JArr [])]"

text \<open>\<open>SELECT id, title, content, created_at\<close>: a row as the object \<open>all()\<close> gives.\<close>

definition row_json :: "note_row \<Rightarrow> json" where
  "row_json r =
     JObj [(''id'', JStr (row_id r)), (''title'', json_of_sql (row_title r)),
           (''content'', json_of_sql (row_content r)), (''created_at'', JNum (row_created_at r))]"

definition owned :: "string \<Rightarrow> string \<Rightarrow> note_row \<Rightarrow> bool" where
  "owned noteId userSessionId r = (row_id r = noteId \<and> row_user_session_id r = userSessionId)"

text \<open>\<open>SELECT ... FROM notes WHERE user_session_id = ? ORDER BY created_at DESC\<close>\<close>

definition run_select :: "string \<Rightarrow> d1_database \<Rightarrow> (fault + note_row list) \<times> d1_database" where
  "run_select userSessionId db =
     (case d1_outage db of
        Some m \<Rightarrow> (Inl (Error m), d1_called D1Select db)
      | None \<Rightarrow>
          (Inr (sort_key (\<lambda>r. - row_created_at r)
                  (filter (\<lambda>r. row_user_session_id r = userSessionId) (notes_table db))),
           d1_called D1Select db))"

text \<open>\<open>INSERT INTO notes (id, user_session_id, title, content, created_at) VALUES (?, ?, ?, ?, ?)\<close>\<close>

definition run_insert :: "note_row \<Rightarrow> d1_database \<Rightarrow> (fault + unit) \<times> d1_database" where
  "run_insert r db =
     (case d1_outage db of
        Some m \<Rightarrow> (Inl (Error m), d1_called D1Insert db)
      | None \<Rightarrow> (Inr (), d1_called D1Insert (db\<lparr>notes_table := notes_table db @ [r]\<rparr>)))"

text \<open>\<open>UPDATE notes SET title = ?, content = ? WHERE id = ? AND user_session_id = ?\<close>\<close>

definition run_update ::
  "sqlval \<Rightarrow> sqlval \<Rightarrow> string \<Rightarrow> string \<Rightarrow> d1_database \<Rightarrow> (fault + json) \<times> d1_database" where
  "run_update t c noteId userSessionId db =
     (case d1_outage db of
        Some m \<Rightarrow> (Inl (Error m), d1_called D1Update db)
      | None \<Rightarrow>
          (Inr (D1Result (length (filter (owned noteId userSessionId) (notes_table db)))),
           d1_called D1Update
             (db\<lparr>notes_table :=
                   map (\<lambda>r. if owned noteId userSessionId r
                             then r\<lparr>row_title := t, row_content := c\<rparr> else r)
                     (notes_table db)\<rparr>)))"

text \<open>\<open>DELETE FROM notes WHERE id = ? AND user_session_id = ?\<close>\<close>

definition run_delete :: "string \<Rightarrow> string \<Rightarrow> d1_database \<Rightarrow> (fault + json) \<times> d1_database" where
  "run_delete noteId userSessionId db =
     (case d1_outage db of
        Some m \<Rightarrow> (Inl (Error m), d1_called D1Delete db)
      | None \<Rightarrow>
          (Inr (D1Result (length (filter (owned noteId userSessionId) (notes_table db)))),
           d1_called D1Delete
             (db\<lparr>notes_table :=
                   filter (\<lambda>r. \<not> owned noteId userSessionId r) (notes_table db)\<rparr>)))"

section \<open>The relational handlers\<close>

definition d1_errorResponse :: "string \<Rightarrow> nat \<Rightarrow> response" where
  "d1_errorResponse msg st = jsonResponse cors_headers (JObj [(''message'', JStr msg)]) st"

text \<open>The title \<^verbatim>\<open>(...)\<close> given to a note without one: three CJK characters in brackets.\<close>

definition untitled :: string where
  "untitled = [
     CHR 0x28, CHR 0xE7, CHR 0x84, CHR 0xA1, CHR 0xE6, CHR 0xA8,
     CHR 0x99, CHR 0xE9, CHR 0xA1, CHR 0x8C, CHR 0x29]"

text \<open>\<open>title || untitled\<close>\<close>

definition title_or_default :: "json option \<Rightarrow> json option" where
  "title_or_default title = (if truthy title then title else Some (JStr untitled))"

text \<open>
  The \<open>switch\<close> inside \<open>try\<close>, the same text in \<open>onRequest\<close> and in \<open>handleRequest\<close>:
  a response, or the fault that the \<open>catch\<close> will receive. The tests
  \<open>updateResult.changes === 0\<close> and \<open>deleteResult.changes === 0\<close> read the property
  \<open>changes\<close> of the object that \<open>run()\<close> gave and compare it with the number 0.
\<close>

definition notes_switch ::
  "ambient \<Rightarrow> request \<Rightarrow> string \<Rightarrow> string option \<Rightarrow> d1_database
     \<Rightarrow> (fault + response) \<times> d1_database" where
  "notes_switch amb req userSessionId noteId db =
     (if request_method req = ''GET'' then
        (case run_select userSessionId db of
           (Inl e, db1) \<Rightarrow> (Inl e, db1)
         | (Inr results, db1) \<Rightarrow>
             (Inr (jsonResponse cors_headers (JArr (map row_json results)) 200), db1))
      else if request_method req = ''POST'' then
        (case request_json req of
           Inl e \<Rightarrow> (Inl e, db)
         | Inr b \<Rightarrow>
             (case destructure b ''title'' of
                Inl e \<Rightarrow> (Inl e, db)
              | Inr title \<Rightarrow>
                  (case destructure b ''content'' of
                     Inl e \<Rightarrow> (Inl e, db)
                   | Inr content \<Rightarrow>
                       (let newId = randomUUID amb; timestamp = Date_now amb in
                        case d1_bind (title_or_default title) of
                          Inl e \<Rightarrow> (Inl e, db)
                        | Inr t \<Rightarrow>
                            (case d1_bind content of
                               Inl e \<Rightarrow> (Inl e, db)
                             | Inr c \<Rightarrow>
                                 (case run_insert
                                         \<lparr>row_id = newId, row_user_session_id = userSessionId,
                                          row_title = t, row_content = c,
                                          row_created_at = timestamp\<rparr> db of
                                    (Inl e, db1) \<Rightarrow> (Inl e, db1)
                                  | (Inr u, db1) \<Rightarrow>
                                      (Inr (jsonResponse cors_headers
                                              (JObj (object_literal
                                                 [(''id'', Some (JStr newId)), (''title'', title),
                                                  (''content'', content),
                                                  (''created_at'', Some (JNum timestamp))] []))
                                              201), db1)))))))
      else if request_method req = ''PUT'' then
        (if \<not> str_truthy noteId
         then (Inr (d1_errorResponse ''Missing note ID for update.'' 400), db)
         else
           (case request_json req of
              Inl e \<Rightarrow> (Inl e, db)
            | Inr b \<Rightarrow>
                (case destructure b ''title'' of
                   Inl e \<Rightarrow> (Inl e, db)
                 | Inr title \<Rightarrow>
                     (case destructure b ''content'' of
                        Inl e \<Rightarrow> (Inl e, db)
                      | Inr content \<Rightarrow>
                          (case d1_bind (title_or_default title) of
                             Inl e \<Rightarrow> (Inl e, db)
                           | Inr t \<Rightarrow>
                               (case d1_bind content of
                                  Inl e \<Rightarrow> (Inl e, db)
                                | Inr c \<Rightarrow>
                                    (case run_update t c (the noteId) userSessionId db of
                                       (Inl e, db1) \<Rightarrow> (Inl e, db1)
                                     | (Inr updateResult, db1) \<Rightarrow>
                                         (case get_prop updateResult ''changes'' of
                                            Inl e \<Rightarrow> (Inl e, db1)
                                          | Inr changes \<Rightarrow>
                                              if changes = Some (JNum 0)
                                              then (Inr (d1_errorResponse
                                                ''Note not found or you do not own this note.''
                                                404), db1)
                                              else (Inr (jsonResponse cors_headers
                                                (JObj [(''message'',
                                                        JStr ''Note updated successfully'')])
                                                200), db1)))))))))
      else if request_method req = ''DELETE'' then
        (if \<not> str_truthy noteId
         then (Inr (d1_errorResponse ''Missing note ID for deletion.'' 400), db)
         else
           (case run_delete (the noteId) userSessionId db of
              (Inl e, db1) \<Rightarrow> (Inl e, db1)
            | (Inr deleteResult, db1) \<Rightarrow>
                (case get_prop deleteResult ''changes'' of
                   Inl e \<Rightarrow> (Inl e, db1)
                 | Inr changes \<Rightarrow>
                     if changes = Some (JNum 0)
                     then (Inr (d1_errorResponse
                             ''Note not found or you do not own this note.'' 404), db1)
                     else (Inr (jsonResponse cors_headers
                             (JObj [(''message'', JStr ''Note deleted successfully'')]) 200),
                           db1))))
      else (Inr (d1_errorResponse (''Method '' @ request_method req @ '' not allowed.'') 405), db))"

text \<open>\<open>try { switch ... } catch (error) { ... }\<close>; what \<open>console.error\<close> prints is not modelled.\<close>

definition notes_try ::
  "ambient \<Rightarrow> request \<Rightarrow> string \<Rightarrow> string option \<Rightarrow> d1_database \<Rightarrow> outcome \<times> d1_database" where
  "notes_try amb req userSessionId noteId db =
     (case notes_switch amb req userSessionId noteId db of
        (Inl error, db1) \<Rightarrow>
          (Responded (d1_errorResponse (''Database error: '' @ message error) 500), db1)
      | (Inr r, db1) \<Rightarrow> (Responded r, db1))"

subsection \<open>functions/api/notes.js, first part: a Pages Function\<close>

text \<open>
  The context of a Pages Function: the request and \<open>params.notes\<close>, the path segments the
  platform's router captured (\<open>undefined\<close> when the route has no such parameter).
\<close>

record pages_context =
  request_of :: request
  params_notes :: "string list option"

definition d1_onRequest :: "ambient \<Rightarrow> pages_context \<Rightarrow> d1_database \<Rightarrow> outcome \<times> d1_database" where
  "d1_onRequest amb ctx db =
     (let req = request_of ctx; userSessionId = headers_get req ''X-User-Session'' in
      if \<not> str_truthy userSessionId
      then (Responded (d1_errorResponse
              ''Missing X-User-Session header. User must be initialized.'' 401), db)
      else
        (let noteId = (case params_notes ctx of
                         None \<Rightarrow> None
                       | Some [] \<Rightarrow> None
                       | Some (x # xs) \<Rightarrow> Some x)
         in notes_try amb req (the userSessionId) noteId db))"

subsection \<open>functions/api/notes.js, second part: a Pages Worker\<close>

text \<open>
  The route \<open>/^\/api\/notes\/?([a-zA-Z0-9-]+)?$/\<close>: no match, or the group (\<open>undefined\<close>
  when it matched nothing). The slash is not in the class of the group, so the match
  is decided by what follows \<open>/api/notes\<close> after one optional slash.
\<close>

definition alnum_or_hyphen :: "char \<Rightarrow> bool" where
  "alnum_or_hyphen c =
     (c \<in> set ''abcdefghijklmnopqrstuvwxyzABCDEFGHIJKLMNOPQRSTUVWXYZ0123456789-'')"

definition match_notes_path :: "string \<Rightarrow> string option option" where
  "match_notes_path path =
     (if \<not> prefix ''/api/notes'' path then None
      else
        (let rest = drop 10 path;
             grp = (case rest of [] \<Rightarrow> [] | c # r \<Rightarrow> if c = CHR ''/'' then r else rest)
         in if list_all alnum_or_hyphen grp
            then Some (if grp = [] then None else Some grp)
            else None))"

definition d1_handleRequest :: "ambient \<Rightarrow> request \<Rightarrow> d1_database \<Rightarrow> outcome \<times> d1_database" where
  "d1_handleRequest amb req db =
     (case match_notes_path (pathname req) of
        None \<Rightarrow> (NotHandled, db)
      | Some grp \<Rightarrow>
          (let userSessionId = headers_get req ''X-User-Session'' in
           if \<not> str_truthy userSessionId
           then (Responded (d1_errorResponse
                   ''Missing X-User-Session header. User must be initialized.'' 401), db)
           else
             (let noteId = (if str_truthy grp then grp else None)
              in notes_try amb req (the userSessionId) noteId db)))"

definition d1_fetch :: "ambient \<Rightarrow> request \<Rightarrow> d1_database \<Rightarrow> outcome \<times> d1_database" where
  "d1_fetch amb req db =
     (case d1_handleRequest amb req db of
        (NotHandled, db1) \<Rightarrow> (NotHandled, db1)
      | (response, db1) \<Rightarrow> (response, db1))"

section \<open>Routes and example data for the properties\<close>

text \<open>
  The requests that \<open>onRequest\<close> of \<open>functions/worker.js\<close> passes to one of its four
  handlers: \<open>GET\<close> and \<open>POST\<close> on the collection path, \<open>PUT\<close> and \<open>DELETE\<close> on an item
  path. Every other request gets its 404 from \<open>onRequest\<close> itself.
\<close>

definition pf_route :: "request \<Rightarrow> bool" where
  "pf_route req =
     (pathname req = ''/api/notes'' \<and> (request_method req = ''GET'' \<or> request_method req = ''POST'')
      \<or> match_uuid_path (pathname req) \<noteq> None
          \<and> (request_method req = ''PUT'' \<or> request_method req = ''DELETE''))"

text \<open>What a client sees of an outcome: the status and the body of the response, if any.\<close>

fun status_of :: "outcome \<Rightarrow> nat option" where
  "status_of (Responded r) = Some (status r)"
| "status_of NotHandled = None"
| "status_of (Threw e) = None"


text \<open>
  The property \<open>k\<close> of the record stored in a value of the namespace, read the way
  \<open>handleUpdateNote\<close> reads the record: parsed, then spread.
\<close>

definition stored_field :: "blob option \<Rightarrow> string \<Rightarrow> json option" where
  "stored_field stored k =
     (case stored of
        None \<Rightarrow> None
      | Some t \<Rightarrow> (case JSON_parse t of Inl e \<Rightarrow> None | Inr v \<Rightarrow> map_of (spread v) k))"

text \<open>
  Example data: a note of the user \<open>u\<close> (session \<open>s\<close>) as both bindings store it, and a
  \<open>PUT\<close> on its item path with a new content.
\<close>

definition ex_id :: string where
  "ex_id = ''123e4567-e89b-12d3-a456-426614174000''"

definition ex_amb :: ambient where
  "ex_amb = \<lparr>randomUUID = ''00000000-0000-4000-8000-000000000000'', Date_now = 1700000000500\<rparr>"

definition ex_env :: kv_namespace where
  "ex_env =
     \<lparr>entries =
        [(''notes:u:123e4567-e89b-12d3-a456-426614174000'',
          Stringified (JObj [(''id'', JStr ''123e4567-e89b-12d3-a456-426614174000''),
            (''content'', JStr ''buy milk''), (''createdAt'', JNum 1700000000000),
            (''updatedAt'', JNum 1700000000000)]))],
      kv_calls = [], kv_outage = None\<rparr>"

definition ex_db :: d1_database where
  "ex_db =
     \<lparr>notes_table =
        [\<lparr>row_id = ''123e4567-e89b-12d3-a456-426614174000'', row_user_session_id = ''s'',
          row_title = SText ''list'', row_content = SText ''buy milk'',
          row_created_at = 1700000000000\<rparr>],
      d1_calls = [], d1_outage = None\<rparr>"

definition ex_put :: "json \<Rightarrow> request" where
  "ex_put b =
     \<lparr>request_method = ''PUT'',
      pathname = ''/api/notes/123e4567-e89b-12d3-a456-426614174000'',
      headers = [(''X-User-Token'', ''u''), (''X-User-Session'', ''s'')],
      body = Stringified b\<rparr>"

definition ex_ctx :: "json \<Rightarrow> pages_context" where
  "ex_ctx b =
     \<lparr>request_of = ex_put b,
      params_notes = Some [''123e4567-e89b-12d3-a456-426614174000'']\<rparr>"

section \<open>Basic facts about responses and handlers\<close>

lemmas kv_binding_defs =
  NOTES_KV_list_def NOTES_KV_get_def NOTES_KV_put_def NOTES_KV_delete_def kv_called_def

lemmas d1_binding_defs =
  run_select_def run_insert_def run_update_def run_delete_def d1_called_def D1Result_def

lemmas request_defs =
  getUserId_def headers_get_def strip_def http_whitespace_def request_json_def

lemmas kv_handler_defs =
  listNotes_def createNote_def updateNote_def updatedNote_def
  sw_handleListNotes_def sw_handleCreateNote_def sw_handleUpdateNote_def sw_handleDeleteNote_def
  pf_handleListNotes_def pf_handleCreateNote_def pf_handleUpdateNote_def pf_handleDeleteNote_def
  request_defs note_key_def object_literal_def
  match_uuid_path_def hex_or_hyphen_def JSON_stringify_def

lemmas d1_handler_defs =
  d1_onRequest_def d1_handleRequest_def d1_fetch_def notes_try_def notes_switch_def
  match_notes_path_def alnum_or_hyphen_def request_defs
  title_or_default_def owned_def object_literal_def JSON_stringify_def

lemmas ex_defs = ex_id_def ex_amb_def ex_env_def ex_db_def ex_put_def ex_ctx_def

lemma status_jsonResponse [simp]: "status (jsonResponse hs data st) = st"
  by (simp add: jsonResponse_def)

lemma status_kv_errorResponse [simp]: "status (kv_errorResponse hs msg st) = st"
  by (simp add: kv_errorResponse_def)

lemma status_d1_errorResponse [simp]: "status (d1_errorResponse msg st) = st"
  by (simp add: d1_errorResponse_def)

text \<open>No key/value handler gives \<open>undefined\<close>.\<close>

lemma listNotes_responds: "fst (listNotes hs env u) \<noteq> NotHandled"
  by (simp add: listNotes_def split: prod.splits sum.splits)

lemma createNote_responds: "fst (createNote hs amb req env u) \<noteq> NotHandled"
  by (simp add: createNote_def Let_def split: prod.splits sum.splits)

lemma updateNote_responds: "fst (updateNote hs amb req env u n) \<noteq> NotHandled"
  by (simp add: updateNote_def Let_def split: prod.splits sum.splits option.splits)

lemma sw_handleDeleteNote_responds: "fst (sw_handleDeleteNote env u n) \<noteq> NotHandled"
  by (simp add: sw_handleDeleteNote_def Let_def split: prod.splits sum.splits)

lemma sw_fetch_responds: "fst (sw_fetch amb req env) \<noteq> NotHandled"
  by (simp add: sw_fetch_def Let_def sw_handleListNotes_def sw_handleCreateNote_def
      sw_handleUpdateNote_def listNotes_responds createNote_responds updateNote_responds
      sw_handleDeleteNote_responds split: option.splits)

lemma sw_fetch_unauthenticated:
  "\<not> str_truthy (getUserId req) \<Longrightarrow>
     sw_fetch amb req env = (Responded (kv_errorResponse cors_headers msg_missing_token 401), env)"
  by (simp add: sw_fetch_def Let_def)

section \<open>The standard Worker checks the identity before the route\<close>

text \<open>
  Claim C10. In the standard Worker over the KV binding (\<open>fetch\<close> of the unnamed file)
  the identity check comes before any route is looked at: a request whose
  \<open>X-User-Token\<close> header is missing or empty is answered with status 401 whatever its
  path is, also outside \<open>/api/\<close>, and the namespace is left as it was, with no call made
  on it. For no request at all does this handler give \<open>undefined\<close>, so it never hands
  a request over to the static assets.
\<close>

theorem sw_fetch_identity_first:
  "(\<not> str_truthy (getUserId req) \<longrightarrow>
      sw_fetch amb req env
        = (Responded (kv_errorResponse cors_headers msg_missing_token 401), env)
      \<and> status (kv_errorResponse cors_headers msg_missing_token 401) = 401)
   \<and> fst (sw_fetch amb req env) \<noteq> NotHandled"
  by (simp add: sw_fetch_unauthenticated sw_fetch_responds)

theorem sw_fetch_identity_first_witness:
  "\<not> str_truthy (getUserId
        \<lparr>request_method = ''GET'', pathname = ''/index.html'', headers = [], body = Empty\<rparr>)
   \<and> sw_fetch \<lparr>randomUUID = ''123e4567-e89b-12d3-a456-426614174000'', Date_now = 1700000000000\<rparr>
        \<lparr>request_method = ''GET'', pathname = ''/index.html'', headers = [], body = Empty\<rparr>
        \<lparr>entries = [], kv_calls = [], kv_outage = None\<rparr>
       = (Responded (kv_errorResponse cors_headers msg_missing_token 401),
          \<lparr>entries = [], kv_calls = [], kv_outage = None\<rparr>)
   \<and> fst (sw_fetch \<lparr>randomUUID = ''123e4567-e89b-12d3-a456-426614174000'', Date_now = 1700000000000\<rparr>
        \<lparr>request_method = ''GET'', pathname = ''/index.html'', headers = [], body = Empty\<rparr>
        \<lparr>entries = [], kv_calls = [], kv_outage = None\<rparr>) \<noteq> NotHandled"
  using sw_fetch_identity_first
    [of "\<lparr>request_method = ''GET'', pathname = ''/index.html'', headers = [], body = Empty\<rparr>"
        "\<lparr>randomUUID = ''123e4567-e89b-12d3-a456-426614174000'', Date_now = 1700000000000\<rparr>"
        "\<lparr>entries = [], kv_calls = [], kv_outage = None\<rparr>"]
  by (simp add: request_defs)

section \<open>Calls on the bindings are recorded\<close>

text \<open>
  Every call on a binding, failing or not, adds its entry to the record of calls. A handler
  that gives back the binding as it received it has therefore made no call on it.
\<close>

lemma NOTES_KV_list_logged: "kv_calls (snd (NOTES_KV_list p env)) = kv_calls env @ [KvList p]"
  by (simp add: kv_binding_defs split: option.splits)

lemma NOTES_KV_get_logged: "kv_calls (snd (NOTES_KV_get k env)) = kv_calls env @ [KvGet k]"
  by (simp add: kv_binding_defs split: option.splits)

lemma NOTES_KV_put_logged: "kv_calls (snd (NOTES_KV_put k v env)) = kv_calls env @ [KvPut k v]"
  by (simp add: kv_binding_defs split: option.splits)

lemma NOTES_KV_delete_logged: "kv_calls (snd (NOTES_KV_delete k env)) = kv_calls env @ [KvDelete k]"
  by (simp add: kv_binding_defs split: option.splits)

lemma run_select_logged: "d1_calls (snd (run_select s db)) = d1_calls db @ [D1Select]"
  by (simp add: d1_binding_defs split: option.splits)

lemma run_insert_logged: "d1_calls (snd (run_insert r db)) = d1_calls db @ [D1Insert]"
  by (simp add: d1_binding_defs split: option.splits)

lemma run_update_logged: "d1_calls (snd (run_update t c n s db)) = d1_calls db @ [D1Update]"
  by (simp add: d1_binding_defs split: option.splits)

lemma run_delete_logged: "d1_calls (snd (run_delete n s db)) = d1_calls db @ [D1Delete]"
  by (simp add: d1_binding_defs split: option.splits)

section \<open>A request without identity is refused before the backend is reached\<close>

lemma match_uuid_path_not_collection: "match_uuid_path ''/api/notes'' = None"
  by (simp add: match_uuid_path_def)

lemma pf_onRequest_unauthenticated:
  assumes "\<not> str_truthy (getUserId req)" and "pf_route req"
  shows "pf_onRequest amb req env
     = (Responded (kv_errorResponse plain_headers
          (if pathname req = ''/api/notes'' \<and> request_method req = ''GET''
           then msg_missing_token else msg_missing_credential) 401), env)"
  using assms
  by (auto simp add: pf_onRequest_def pf_route_def Let_def pf_handleListNotes_def
      pf_handleCreateNote_def pf_handleUpdateNote_def pf_handleDeleteNote_def
      match_uuid_path_not_collection split: option.splits)

lemma d1_onRequest_unauthenticated:
  "\<not> str_truthy (headers_get (request_of ctx) ''X-User-Session'') \<Longrightarrow>
     d1_onRequest amb ctx db
       = (Responded (d1_errorResponse
            ''Missing X-User-Session header. User must be initialized.'' 401), db)"
  by (simp add: d1_onRequest_def Let_def)

lemma d1_handleRequest_unauthenticated:
  "\<not> str_truthy (headers_get req ''X-User-Session'') \<Longrightarrow>
   match_notes_path (pathname req) \<noteq> None \<Longrightarrow>
     d1_handleRequest amb req db
       = (Responded (d1_errorResponse
            ''Missing X-User-Session header. User must be initialized.'' 401), db)"
  by (auto simp add: d1_handleRequest_def Let_def split: option.splits)

lemma d1_fetch_eq: "d1_fetch amb req db = d1_handleRequest amb req db"
  by (simp add: d1_fetch_def split: prod.splits outcome.splits)

text \<open>
  A request that \<open>onRequest\<close> of \<open>functions/worker.js\<close> passes to no handler gets its
  404 without the identity being looked at, and without a call on the namespace.
\<close>

lemma pf_onRequest_unserved:
  "\<not> pf_route req \<Longrightarrow>
     pf_onRequest amb req env = (Responded (kv_errorResponse plain_headers msg_no_route 404), env)"
  by (auto simp add: pf_onRequest_def pf_route_def Let_def split: option.splits)

lemma d1_handleRequest_unmatched:
  "match_notes_path (pathname req) = None \<Longrightarrow> d1_handleRequest amb req db = (NotHandled, db)"
  by (simp add: d1_handleRequest_def)

text \<open>
  Claim C7, as stated, fails where the route is looked at before the identity: without
  any identity header, a \<open>PUT\<close> on the collection path is answered with status 404 by
  \<open>onRequest\<close> of \<open>functions/worker.js\<close>, and a \<open>GET\<close> of \<open>/api/users\<close> is passed on
  by \<open>handleRequest\<close> of \<open>functions/api/notes.js\<close>.
\<close>

theorem route_before_identity_counterexample:
  "pf_onRequest
      \<lparr>randomUUID = ''123e4567-e89b-12d3-a456-426614174000'', Date_now = 1700000000000\<rparr>
      \<lparr>request_method = ''PUT'', pathname = ''/api/notes'', headers = [],
        body = Stringified (JObj [(''content'', JStr ''hello'')])\<rparr>
      \<lparr>entries = [], kv_calls = [], kv_outage = None\<rparr>
     = (Responded
          \<lparr>status = 404, response_headers = [(''Content-Type'', ''application/json'')],
           response_body = Stringified (JObj [(''error'', JStr msg_no_route)])\<rparr>,
        \<lparr>entries = [], kv_calls = [], kv_outage = None\<rparr>)
   \<and> d1_handleRequest
      \<lparr>randomUUID = ''123e4567-e89b-12d3-a456-426614174000'', Date_now = 1700000000000\<rparr>
      \<lparr>request_method = ''GET'', pathname = ''/api/users'', headers = [], body = Empty\<rparr>
      \<lparr>notes_table = [], d1_calls = [], d1_outage = None\<rparr>
     = (NotHandled, \<lparr>notes_table = [], d1_calls = [], d1_outage = None\<rparr>)"
  by (simp add: pf_onRequest_def match_uuid_path_def kv_errorResponse_def jsonResponse_def
      plain_headers_def JSON_stringify_def d1_handleRequest_def match_notes_path_def)

text \<open>
  Claim C7, amended. Wherever a handler gets to look at the identity, a request whose
  identity header is missing or empty is answered with status 401, and the binding is
  given back as it was received: no call, read or write, has been made on it. That is
  every request for the standard Worker and for the Pages Function of
  \<open>functions/api/notes.js\<close>, every path that matches the notes pattern for the Pages
  Worker of that file, and the four routes served by a handler for
  \<open>functions/worker.js\<close>. Before that point the identity plays no part:
  \<open>functions/worker.js\<close> answers every other request with status 404, and the Pages
  Worker passes every other path on, both without a call on the binding.
\<close>

theorem missing_identity_401_before_backend:
  "(\<not> str_truthy (getUserId req) \<longrightarrow>
      sw_fetch amb req env
        = (Responded (kv_errorResponse cors_headers msg_missing_token 401), env)
      \<and> status_of (fst (sw_fetch amb req env)) = Some 401)
   \<and> (\<not> str_truthy (getUserId req) \<and> pf_route req \<longrightarrow>
      pf_onRequest amb req env
        = (Responded (kv_errorResponse plain_headers
             (if pathname req = ''/api/notes'' \<and> request_method req = ''GET''
              then msg_missing_token else msg_missing_credential) 401), env)
      \<and> status_of (fst (pf_onRequest amb req env)) = Some 401)
   \<and> (\<not> pf_route req \<longrightarrow>
      pf_onRequest amb req env
        = (Responded (kv_errorResponse plain_headers msg_no_route 404), env)
      \<and> status_of (fst (pf_onRequest amb req env)) = Some 404)
   \<and> (\<not> str_truthy (headers_get (request_of ctx) ''X-User-Session'') \<longrightarrow>
      d1_onRequest amb ctx db
        = (Responded (d1_errorResponse
             ''Missing X-User-Session header. User must be initialized.'' 401), db)
      \<and> status_of (fst (d1_onRequest amb ctx db)) = Some 401)
   \<and> (\<not> str_truthy (headers_get req ''X-User-Session'')
        \<and> match_notes_path (pathname req) \<noteq> None \<longrightarrow>
      d1_fetch amb req db
        = (Responded (d1_errorResponse
             ''Missing X-User-Session header. User must be initialized.'' 401), db)
      \<and> status_of (fst (d1_fetch amb req db)) = Some 401)
   \<and> (match_notes_path (pathname req) = None \<longrightarrow>
      d1_fetch amb req db = (NotHandled, db))"
  by (simp add: sw_fetch_unauthenticated pf_onRequest_unauthenticated pf_onRequest_unserved
      d1_onRequest_unauthenticated d1_handleRequest_unauthenticated d1_handleRequest_unmatched
      d1_fetch_eq)

theorem missing_identity_401_before_backend_witness:
  "status_of (fst (sw_fetch ex_amb
      \<lparr>request_method = ''GET'', pathname = ''/api/notes'',
        headers = [(''X-User-Token'', '' '')], body = Empty\<rparr> ex_env)) = Some 401
   \<and> snd (sw_fetch ex_amb
      \<lparr>request_method = ''GET'', pathname = ''/api/notes'',
        headers = [(''X-User-Token'', '' '')], body = Empty\<rparr> ex_env) = ex_env
   \<and> status_of (fst (pf_onRequest ex_amb
      \<lparr>request_method = ''GET'', pathname = ''/api/notes'',
        headers = [(''X-User-Token'', '' '')], body = Empty\<rparr> ex_env)) = Some 401
   \<and> snd (pf_onRequest ex_amb
      \<lparr>request_method = ''GET'', pathname = ''/api/notes'',
        headers = [(''X-User-Token'', '' '')], body = Empty\<rparr> ex_env) = ex_env
   \<and> status_of (fst (pf_onRequest ex_amb
      \<lparr>request_method = ''PUT'', pathname = ''/api/notes'', headers = [], body = Empty\<rparr>
      ex_env)) = Some 404
   \<and> status_of (fst (d1_onRequest ex_amb
      \<lparr>request_of = \<lparr>request_method = ''GET'', pathname = ''/api/notes'',
        headers = [(''X-User-Token'', '' '')], body = Empty\<rparr>, params_notes = None\<rparr>
      ex_db)) = Some 401
   \<and> snd (d1_onRequest ex_amb
      \<lparr>request_of = \<lparr>request_method = ''GET'', pathname = ''/api/notes'',
        headers = [(''X-User-Token'', '' '')], body = Empty\<rparr>, params_notes = None\<rparr>
      ex_db) = ex_db
   \<and> status_of (fst (d1_fetch ex_amb
      \<lparr>request_method = ''GET'', pathname = ''/api/notes'',
        headers = [(''X-User-Token'', '' '')], body = Empty\<rparr> ex_db)) = Some 401
   \<and> snd (d1_fetch ex_amb
      \<lparr>request_method = ''GET'', pathname = ''/api/notes'',
        headers = [(''X-User-Token'', '' '')], body = Empty\<rparr> ex_db) = ex_db
   \<and> d1_fetch ex_amb
      \<lparr>request_method = ''PUT'', pathname = ''/api/users'', headers = [], body = Empty\<rparr>
      ex_db = (NotHandled, ex_db)"
  using missing_identity_401_before_backend
    [where req = "\<lparr>request_method = ''GET'', pathname = ''/api/notes'',
        headers = [(''X-User-Token'', '' '')], body = Empty\<rparr>"
       and amb = ex_amb and env = ex_env and db = ex_db
       and ctx = "\<lparr>request_of = \<lparr>request_method = ''GET'', pathname = ''/api/notes'',
        headers = [(''X-User-Token'', '' '')], body = Empty\<rparr>, params_notes = None\<rparr>"]
    missing_identity_401_before_backend
    [where req = "\<lparr>request_method = ''PUT'', pathname = ''/api/users'', headers = [],
        body = Empty\<rparr>"
       and amb = ex_amb and env = ex_env and db = ex_db]
    missing_identity_401_before_backend
    [where req = "\<lparr>request_method = ''PUT'', pathname = ''/api/notes'', headers = [],
        body = Empty\<rparr>"
       and amb = ex_amb and env = ex_env and db = ex_db]
  by (simp add: request_defs pf_route_def match_notes_path_def match_uuid_path_def)

section \<open>Requests outside the API prefix\<close>







section \<open>Deleting a note that is not there\<close>

text \<open>
  \<open>handleDeleteNote\<close> of \<open>functions/worker.js\<close> reads the key before it deletes, and
  answers 404 when nothing is stored under the scope and the identifier. A second
  delete after a successful one is such a request.
\<close>

lemma pf_delete_missing:
  assumes "getUserId req = Some u" and "u \<noteq> []" and "kv_outage env = None"
    and "map_of (entries env) (note_key u n) = None"
  shows "fst (pf_handleDeleteNote req env n)
           = Responded (kv_errorResponse plain_headers msg_delete_missing 404)"
  using assms by (simp add: pf_handleDeleteNote_def Let_def kv_binding_defs)

lemma pf_delete_twice:
  assumes "pf_handleDeleteNote req env n = (Responded r, env')" and "status r = 200"
  shows "fst (pf_handleDeleteNote req env' n)
           = Responded (kv_errorResponse plain_headers msg_delete_missing 404)"
  using assms
  by (auto simp add: pf_handleDeleteNote_def Let_def kv_binding_defs delete_conv'
      split: option.splits sum.splits prod.splits if_splits)

text \<open>
  Both parts of \<open>functions/api/notes.js\<close> mean to answer 404 when the statement changed
  no row, but the property they compare with 0 is not one the result of \<open>run()\<close> has:
  what they read is \<open>undefined\<close>, the test never holds, and a \<open>DELETE\<close> that reaches
  the database without a fault is answered as a success whatever the table holds.
\<close>

lemma D1Result_changes: "get_prop (D1Result changed) ''changes'' = Inr None"
  by (simp add: D1Result_def)

lemma d1_delete_answers_success:
  assumes "request_method req = ''DELETE''" and "d1_outage db = None" and "n \<noteq> []"
  shows "fst (notes_try amb req s (Some n) db)
           = Responded (jsonResponse cors_headers
               (JObj [(''message'', JStr ''Note deleted successfully'')]) 200)"
  using assms
  by (simp add: notes_try_def notes_switch_def run_delete_def D1Result_changes)

text \<open>
  \<open>handleDeleteNote\<close> of the standard Worker deletes the key without reading it first:
  while the namespace works, its answer is the success response, whatever is stored.
\<close>

lemma sw_delete_always_succeeds:
  "kv_outage env = None \<Longrightarrow>
     fst (sw_handleDeleteNote env u n)
       = Responded (jsonResponse cors_headers (JObj [(''success'', JBool True)]) 200)"
  by (simp add: sw_handleDeleteNote_def Let_def kv_binding_defs)

text \<open>
  Claim C2 says that a second delete of the same note under the same scope is answered
  with 404. In the standard Worker it is not: the first \<open>DELETE\<close> of a stored note
  empties the namespace, and the same \<open>DELETE\<close> on the namespace without the note is
  answered with status 200 and \<open>{success: true}\<close>.
\<close>

theorem second_delete_succeeds:
  "entries (snd (sw_fetch
       \<lparr>randomUUID = ''00000000-0000-4000-8000-000000000000'', Date_now = 1700000000000\<rparr>
       \<lparr>request_method = ''DELETE'',
         pathname = ''/api/notes/123e4567-e89b-12d3-a456-426614174000'',
         headers = [(''X-User-Token'', ''u'')], body = Empty\<rparr>
       \<lparr>entries = [(''notes:u:123e4567-e89b-12d3-a456-426614174000'',
                     Stringified (JObj [(''id'', JStr ''123e4567-e89b-12d3-a456-426614174000''),
                       (''content'', JStr ''hello''), (''createdAt'', JNum 1699999999000),
                       (''updatedAt'', JNum 1699999999000)]))],
         kv_calls = [], kv_outage = None\<rparr>)) = []
   \<and> fst (sw_fetch
       \<lparr>randomUUID = ''00000000-0000-4000-8000-000000000000'', Date_now = 1700000000000\<rparr>
       \<lparr>request_method = ''DELETE'',
         pathname = ''/api/notes/123e4567-e89b-12d3-a456-426614174000'',
         headers = [(''X-User-Token'', ''u'')], body = Empty\<rparr>
       \<lparr>entries = [], kv_calls = [], kv_outage = None\<rparr>)
     = Responded (jsonResponse cors_headers (JObj [(''success'', JBool True)]) 200)"
  by (simp add: sw_fetch_def kv_handler_defs kv_binding_defs)

section \<open>Isolation of scopes\<close>

text \<open>
  In the relational handlers a statement names the scope in its condition: a listing
  holds rows of the asking scope only, and whatever a request of one scope does, the
  rows of every other scope stay in the table as they are. (The answer to an update or
  a delete that reached no row is a success all the same, see above.)
\<close>

lemma run_select_scope:
  "fst (run_select s db) = Inr rows \<Longrightarrow> r \<in> set rows \<Longrightarrow> row_user_session_id r = s"
  by (auto simp add: run_select_def split: option.splits)

lemma notes_switch_keeps_other_rows:
  "row_user_session_id r \<noteq> s \<Longrightarrow> r \<in> set (notes_table db) \<Longrightarrow>
     r \<in> set (notes_table (snd (notes_switch amb req s noteId db)))"
  by (simp add: notes_switch_def d1_binding_defs owned_def Let_def image_iff
      split: sum.splits option.splits)

lemma notes_try_keeps_other_rows:
  assumes "row_user_session_id r \<noteq> s" and "r \<in> set (notes_table db)"
  shows "r \<in> set (notes_table (snd (notes_try amb req s noteId db)))"
  using notes_switch_keeps_other_rows [OF assms, of amb req noteId]
  by (cases "notes_switch amb req s noteId db") (auto simp add: notes_try_def split: sum.splits)

text \<open>
  In the key/value handlers the key of a note names the scope, and two scopes never
  share the key of one identifier. The scan of \<open>handleListNotes\<close> asks for a prefix,
  though, and the prefix of a scope is also a prefix of the keys of every scope that
  continues it after a colon.
\<close>

lemma note_key_inject: "note_key u1 n = note_key u2 n \<Longrightarrow> u1 = u2"
  by (simp add: note_key_def)

lemma scope_prefix_collision:
  "prefix (''notes:'' @ s2 @ '':'') (note_key (s2 @ '':'' @ x) n)"
  by (simp add: note_key_def)

text \<open>
  Claim C1 says that a note created under one scope never appears in the listing of
  another. In both key/value handlers it does: the note that a \<open>POST\<close> with the token
  \<open>a:b\<close> creates is stored under \<open>notes:a:b:<id>\<close>, and the \<open>GET\<close> with the token \<open>a\<close>
  scans the prefix \<open>notes:a:\<close> and returns it.
\<close>

theorem prefix_scan_crosses_scopes:
  "fst (pf_onRequest
          \<lparr>randomUUID = ''00000000-0000-4000-8000-000000000000'', Date_now = 1700000000500\<rparr>
          \<lparr>request_method = ''GET'', pathname = ''/api/notes'',
            headers = [(''X-User-Token'', ''a'')], body = Empty\<rparr>
          (snd (pf_onRequest
             \<lparr>randomUUID = ''123e4567-e89b-12d3-a456-426614174000'', Date_now = 1700000000000\<rparr>
             \<lparr>request_method = ''POST'', pathname = ''/api/notes'',
               headers = [(''X-User-Token'', ''a:b'')],
               body = Stringified (JObj [(''content'', JStr ''hello'')])\<rparr>
             \<lparr>entries = [], kv_calls = [], kv_outage = None\<rparr>)))
     = Responded (jsonResponse plain_headers
         (JArr [JObj [(''id'', JStr ''123e4567-e89b-12d3-a456-426614174000''),
                      (''content'', JStr ''hello''), (''createdAt'', JNum 1700000000000),
                      (''updatedAt'', JNum 1700000000000)]]) 200)
   \<and> fst (sw_fetch
          \<lparr>randomUUID = ''00000000-0000-4000-8000-000000000000'', Date_now = 1700000000500\<rparr>
          \<lparr>request_method = ''GET'', pathname = ''/api/notes'',
            headers = [(''X-User-Token'', ''a'')], body = Empty\<rparr>
          (snd (sw_fetch
             \<lparr>randomUUID = ''123e4567-e89b-12d3-a456-426614174000'', Date_now = 1700000000000\<rparr>
             \<lparr>request_method = ''POST'', pathname = ''/api/notes'',
               headers = [(''X-User-Token'', ''a:b'')],
               body = Stringified (JObj [(''content'', JStr ''hello'')])\<rparr>
             \<lparr>entries = [], kv_calls = [], kv_outage = None\<rparr>)))
     = Responded (jsonResponse cors_headers
         (JArr [JObj [(''id'', JStr ''123e4567-e89b-12d3-a456-426614174000''),
                      (''content'', JStr ''hello''), (''createdAt'', JNum 1700000000000),
                      (''updatedAt'', JNum 1700000000000)]]) 200)"
  by (simp add: pf_onRequest_def sw_fetch_def kv_handler_defs kv_binding_defs Let_def)

section \<open>What a successful update does\<close>


lemma updateNote_success:
  assumes "status_of (fst (updateNote hs amb req env u n)) = Some 200"
  shows "\<exists>t existingNote b content merged.
           kv_outage env = None
         \<and> map_of (entries env) (note_key u n) = Some t \<and> t \<noteq> Empty
         \<and> JSON_parse t = Inr existingNote
         \<and> request_json req = Inr b
         \<and> destructure b ''content'' = Inr content
         \<and> (if nullish content then get_prop existingNote ''content'' else Inr content) = Inr merged
         \<and> length (note_key u n) \<le> 512
         \<and> fst (updateNote hs amb req env u n)
             = Responded (jsonResponse hs (updatedNote amb existingNote merged) 200)
         \<and> entries (snd (updateNote hs amb req env u n))
             = AList.update (note_key u n)
                 (JSON_stringify (updatedNote amb existingNote merged)) (entries env)"
  using assms
  by (auto simp add: updateNote_def Let_def kv_binding_defs
      split: option.splits sum.splits prod.splits if_splits)

text \<open>Whatever its outcome, an update touches no key but its own.\<close>

lemma updateNote_other_keys:
  assumes "key \<noteq> note_key u n"
  shows "map_of (entries (snd (updateNote hs amb req env u n))) key = map_of (entries env) key"
  using assms
  by (simp add: updateNote_def Let_def kv_binding_defs update_conv'
      split: option.splits sum.splits)

text \<open>An update that does not end with status 200 leaves the entries as they were.\<close>

lemma updateNote_failure:
  "status_of (fst (updateNote hs amb req env u n)) \<noteq> Some 200 \<longrightarrow>
     entries (snd (updateNote hs amb req env u n)) = entries env"
  by (simp add: updateNote_def Let_def kv_binding_defs
      split: option.splits sum.splits)



lemma sw_fetch_put_200:
  assumes "request_method req = ''PUT''" and "getUserId req = Some u"
    and "match_uuid_path (pathname req) = Some n"
    and "status_of (fst (sw_fetch amb req env)) = Some 200"
  shows "sw_fetch amb req env = updateNote cors_headers amb req env u n"
  using assms
  by (cases "u = []")
     (simp_all add: sw_fetch_def Let_def sw_handleUpdateNote_def)

lemma pf_onRequest_put_200:
  assumes "request_method req = ''PUT''" and "getUserId req = Some u"
    and "match_uuid_path (pathname req) = Some n"
    and "status_of (fst (pf_onRequest amb req env)) = Some 200"
  shows "pf_onRequest amb req env = updateNote plain_headers amb req env u n"
  using assms
  by (cases "u = []")
     (simp_all add: pf_onRequest_def Let_def pf_handleUpdateNote_def)

text \<open>
  The update of \<open>functions/api/notes.js\<close> succeeds exactly when there is an identifier,
  the body parses to a value other than \<open>null\<close>, both values can be bound and the
  statement runs. Whether it reached a row plays no part: the property compared with 0
  is \<open>undefined\<close>.
\<close>

lemma notes_try_put_succeeds:
  assumes "request_method req = ''PUT''" and "n \<noteq> []" and "d1_outage db = None"
    and "request_json req = Inr b"
    and "destructure b ''title'' = Inr title" and "destructure b ''content'' = Inr content"
    and "d1_bind (title_or_default title) = Inr t" and "d1_bind content = Inr c"
  shows "fst (notes_try amb req s (Some n) db)
           = Responded (jsonResponse cors_headers
               (JObj [(''message'', JStr ''Note updated successfully'')]) 200)"
    and "notes_table (snd (notes_try amb req s (Some n) db))
           = map (\<lambda>r. if owned n s r then r\<lparr>row_title := t, row_content := c\<rparr> else r)
               (notes_table db)"
  using assms
  by (simp_all add: notes_try_def notes_switch_def run_update_def d1_called_def
      D1Result_changes)

lemma notes_try_put_noteId:
  assumes "request_method req = ''PUT''"
    and "status_of (fst (notes_try amb req s noteId db)) = Some 200"
  shows "\<exists>n. noteId = Some n \<and> n \<noteq> []"
  using assms
  by (cases noteId) (auto simp add: notes_try_def notes_switch_def split: if_splits)

lemma notes_switch_put_success:
  "request_method req = ''PUT'' \<Longrightarrow>
   (\<exists>r. fst (notes_switch amb req s (Some n) db) = Inr r \<and> status r = 200) \<longrightarrow>
   (\<exists>b title content t c.
        n \<noteq> [] \<and> d1_outage db = None \<and> request_json req = Inr b
      \<and> destructure b ''title'' = Inr title \<and> destructure b ''content'' = Inr content
      \<and> d1_bind (title_or_default title) = Inr t \<and> d1_bind content = Inr c)"
  by (simp add: notes_switch_def run_update_def D1Result_changes Let_def
      split: sum.splits option.splits)

lemma notes_try_put_success:
  assumes "request_method req = ''PUT''"
    and "status_of (fst (notes_try amb req s (Some n) db)) = Some 200"
  shows "\<exists>b title content t c.
           n \<noteq> [] \<and> d1_outage db = None
         \<and> request_json req = Inr b
         \<and> destructure b ''title'' = Inr title \<and> destructure b ''content'' = Inr content
         \<and> d1_bind (title_or_default title) = Inr t \<and> d1_bind content = Inr c
         \<and> fst (notes_try amb req s (Some n) db)
             = Responded (jsonResponse cors_headers
                 (JObj [(''message'', JStr ''Note updated successfully'')]) 200)
         \<and> notes_table (snd (notes_try amb req s (Some n) db))
             = map (\<lambda>r. if owned n s r then r\<lparr>row_title := t, row_content := c\<rparr> else r)
                 (notes_table db)"
proof -
  have "\<exists>r. fst (notes_switch amb req s (Some n) db) = Inr r \<and> status r = 200"
    using assms(2)
    by (cases "notes_switch amb req s (Some n) db")
       (auto simp add: notes_try_def split: sum.splits)
  then obtain b title content t c where
    c: "n \<noteq> []" "d1_outage db = None" "request_json req = Inr b"
      "destructure b ''title'' = Inr title" "destructure b ''content'' = Inr content"
      "d1_bind (title_or_default title) = Inr t" "d1_bind content = Inr c"
    using notes_switch_put_success [OF assms(1), of amb s n db] by blast
  show ?thesis
    using c notes_try_put_succeeds [OF assms(1) c(1-7), of amb s] by blast
qed

lemma d1_handleRequest_runs_try:
  assumes "headers_get req ''X-User-Session'' = Some s" and "s \<noteq> []"
    and "match_notes_path (pathname req) = Some g"
  shows "d1_handleRequest amb req db
           = notes_try amb req s (if str_truthy g then g else None) db"
  using assms by (simp add: d1_handleRequest_def Let_def)

lemma d1_onRequest_runs_try:
  assumes "headers_get (request_of ctx) ''X-User-Session'' = Some s" and "s \<noteq> []"
  shows "d1_onRequest amb ctx db
           = notes_try amb (request_of ctx) s
               (case params_notes ctx of None \<Rightarrow> None | Some [] \<Rightarrow> None
                | Some (x # xs) \<Rightarrow> Some x) db"
  using assms by (simp add: d1_onRequest_def Let_def)

lemma d1_handleRequest_success:
  assumes "headers_get req ''X-User-Session'' = Some s"
    and "match_notes_path (pathname req) = Some g"
    and "status_of (fst (d1_handleRequest amb req db)) = Some 200"
  shows "d1_handleRequest amb req db
           = notes_try amb req s (if str_truthy g then g else None) db"
  using assms
  by (cases "s = []") (simp_all add: d1_handleRequest_def Let_def)

lemma d1_onRequest_success:
  assumes "headers_get (request_of ctx) ''X-User-Session'' = Some s"
    and "status_of (fst (d1_onRequest amb ctx db)) = Some 200"
  shows "d1_onRequest amb ctx db
           = notes_try amb (request_of ctx) s
               (case params_notes ctx of None \<Rightarrow> None | Some [] \<Rightarrow> None
                | Some (x # xs) \<Rightarrow> Some x) db"
  using assms
  by (cases "s = []") (simp_all add: d1_onRequest_def Let_def)

lemma d1_handleRequest_200_runs_try:
  assumes "status_of (fst (d1_handleRequest amb req db)) = Some 200"
  shows "\<exists>s noteId. d1_handleRequest amb req db = notes_try amb req s noteId db"
  using assms
  by (auto simp add: d1_handleRequest_def Let_def split: option.splits if_splits)

lemma d1_onRequest_200_runs_try:
  assumes "status_of (fst (d1_onRequest amb ctx db)) = Some 200"
  shows "\<exists>s noteId. d1_onRequest amb ctx db = notes_try amb (request_of ctx) s noteId db"
  using assms
  by (auto simp add: d1_onRequest_def Let_def split: option.splits if_splits)

section \<open>The answer to a successful update\<close>

lemma match_notes_path_group: "match_notes_path path = Some (Some m) \<Longrightarrow> m \<noteq> []"
  by (auto simp add: match_notes_path_def Let_def split: if_splits list.splits)








section \<open>What an update leaves alone\<close>

lemma map_of_set_prop:
  "map_of (set_prop k v kvs) k' = (if k' = k then v else map_of kvs k')"
  by (cases v) (simp_all add: update_conv' delete_conv')

lemma map_of_updatedNote:
  "map_of (spread (updatedNote amb existingNote merged)) k
     = (if k = ''updatedAt'' then Some (JNum (Date_now amb))
        else if k = ''content'' then merged
        else map_of (spread existingNote) k)"
  by (simp add: updatedNote_def object_literal_def map_of_set_prop update_conv')

lemma updateNote_frame:
  assumes "status_of (fst (updateNote hs amb req env u n)) = Some 200"
    and "k \<noteq> ''content''" and "k \<noteq> ''updatedAt''"
  shows "stored_field (map_of (entries (snd (updateNote hs amb req env u n))) (note_key u n)) k
           = stored_field (map_of (entries env) (note_key u n)) k"
  using updateNote_success [OF assms(1)] assms(2,3)
  by (auto simp add: stored_field_def update_conv' JSON_stringify_def map_of_updatedNote)

lemma notes_try_put_frame:
  assumes "request_method req = ''PUT''"
    and "status_of (fst (notes_try amb req s noteId db)) = Some 200"
  shows "map row_id (notes_table (snd (notes_try amb req s noteId db)))
           = map row_id (notes_table db)
       \<and> map row_user_session_id (notes_table (snd (notes_try amb req s noteId db)))
           = map row_user_session_id (notes_table db)
       \<and> map row_created_at (notes_table (snd (notes_try amb req s noteId db)))
           = map row_created_at (notes_table db)"
proof -
  obtain n where n: "noteId = Some n"
    using notes_try_put_noteId [OF assms] by blast
  obtain t c where tab: "notes_table (snd (notes_try amb req s (Some n) db))
      = map (\<lambda>r. if owned n s r then r\<lparr>row_title := t, row_content := c\<rparr> else r)
          (notes_table db)"
    using notes_try_put_success [OF assms(1), of amb s n db] assms(2) n by blast
  show ?thesis
    unfolding n tab by (simp add: comp_def if_distrib cong: if_cong)
qed

text \<open>
  Claim C5, as stated, fails on the relational handlers: an update writes the title as
  well as the content. Here the content stays \<open>buy milk\<close> and the title of the row
  changes from \<open>list\<close> to \<open>groceries\<close>.
\<close>

theorem relational_update_changes_title_counterexample:
  "notes_table (snd (d1_handleRequest
          \<lparr>randomUUID = ''00000000-0000-4000-8000-000000000000'', Date_now = 1700000000500\<rparr>
          \<lparr>request_method = ''PUT'',
            pathname = ''/api/notes/123e4567-e89b-12d3-a456-426614174000'',
            headers = [(''X-User-Session'', ''s'')],
            body = Stringified (JObj [(''title'', JStr ''groceries''),
                                      (''content'', JStr ''buy milk'')])\<rparr>
          \<lparr>notes_table =
             [\<lparr>row_id = ''123e4567-e89b-12d3-a456-426614174000'', row_user_session_id = ''s'',
               row_title = SText ''list'', row_content = SText ''buy milk'',
               row_created_at = 1700000000000\<rparr>],
            d1_calls = [], d1_outage = None\<rparr>))
     = [\<lparr>row_id = ''123e4567-e89b-12d3-a456-426614174000'', row_user_session_id = ''s'',
         row_title = SText ''groceries'', row_content = SText ''buy milk'',
         row_created_at = 1700000000000\<rparr>]"
  by (simp add: d1_handler_defs d1_binding_defs Let_def)

text \<open>
  Claim C5, amended. A successful update changes only the content and \<open>updatedAt\<close> in
  the key/value handlers, and only the title and the content in the relational
  handlers. In the key/value handlers every other property of the stored record
  (\<open>id\<close> and \<open>createdAt\<close> among them) is the same before and after, the record stays
  under the key of its scope and identifier, and the value under every other key is
  untouched. In the relational handlers the columns \<open>id\<close>, \<open>user_session_id\<close>
  and \<open>created_at\<close> of the table are the same before and after.
\<close>

theorem update_frame:
  "(request_method req = ''PUT'' \<and> getUserId req = Some u
      \<and> match_uuid_path (pathname req) = Some n
      \<and> status_of (fst (sw_fetch amb req env)) = Some 200 \<longrightarrow>
      (k \<noteq> ''content'' \<and> k \<noteq> ''updatedAt'' \<longrightarrow>
         stored_field (map_of (entries (snd (sw_fetch amb req env))) (note_key u n)) k
           = stored_field (map_of (entries env) (note_key u n)) k)
      \<and> (key \<noteq> note_key u n \<longrightarrow>
         map_of (entries (snd (sw_fetch amb req env))) key = map_of (entries env) key))
   \<and> (request_method req = ''PUT'' \<and> getUserId req = Some u
      \<and> match_uuid_path (pathname req) = Some n
      \<and> status_of (fst (pf_onRequest amb req env)) = Some 200 \<longrightarrow>
      (k \<noteq> ''content'' \<and> k \<noteq> ''updatedAt'' \<longrightarrow>
         stored_field (map_of (entries (snd (pf_onRequest amb req env))) (note_key u n)) k
           = stored_field (map_of (entries env) (note_key u n)) k)
      \<and> (key \<noteq> note_key u n \<longrightarrow>
         map_of (entries (snd (pf_onRequest amb req env))) key = map_of (entries env) key))
   \<and> (request_method req = ''PUT''
      \<and> status_of (fst (d1_handleRequest amb req db)) = Some 200 \<longrightarrow>
      map row_id (notes_table (snd (d1_handleRequest amb req db)))
        = map row_id (notes_table db)
      \<and> map row_user_session_id (notes_table (snd (d1_handleRequest amb req db)))
        = map row_user_session_id (notes_table db)
      \<and> map row_created_at (notes_table (snd (d1_handleRequest amb req db)))
        = map row_created_at (notes_table db))
   \<and> (request_method (request_of ctx) = ''PUT''
      \<and> status_of (fst (d1_onRequest amb ctx db)) = Some 200 \<longrightarrow>
      map row_id (notes_table (snd (d1_onRequest amb ctx db)))
        = map row_id (notes_table db)
      \<and> map row_user_session_id (notes_table (snd (d1_onRequest amb ctx db)))
        = map row_user_session_id (notes_table db)
      \<and> map row_created_at (notes_table (snd (d1_onRequest amb ctx db)))
        = map row_created_at (notes_table db))"
proof -
  have sw: "sw_fetch amb req env = updateNote cors_headers amb req env u n"
    if "request_method req = ''PUT''" "getUserId req = Some u"
      "match_uuid_path (pathname req) = Some n"
      "status_of (fst (sw_fetch amb req env)) = Some 200"
    using that by (rule sw_fetch_put_200)
  have pf: "pf_onRequest amb req env = updateNote plain_headers amb req env u n"
    if "request_method req = ''PUT''" "getUserId req = Some u"
      "match_uuid_path (pathname req) = Some n"
      "status_of (fst (pf_onRequest amb req env)) = Some 200"
    using that by (rule pf_onRequest_put_200)
  have hr: "\<exists>s noteId. d1_handleRequest amb req db = notes_try amb req s noteId db"
    if "status_of (fst (d1_handleRequest amb req db)) = Some 200"
    using that by (rule d1_handleRequest_200_runs_try)
  have orq: "\<exists>s noteId. d1_onRequest amb ctx db = notes_try amb (request_of ctx) s noteId db"
    if "status_of (fst (d1_onRequest amb ctx db)) = Some 200"
    using that by (rule d1_onRequest_200_runs_try)
  show ?thesis
    apply (intro conjI impI)
    subgoal using sw updateNote_frame [of cors_headers amb req env u n k] by auto
    subgoal using sw updateNote_other_keys [of key u n cors_headers amb req env] by auto
    subgoal using pf updateNote_frame [of plain_headers amb req env u n k] by auto
    subgoal using pf updateNote_other_keys [of key u n plain_headers amb req env] by auto
    subgoal using hr notes_try_put_frame [of req amb _ _ db] by (elim conjE) (metis)
    subgoal using hr notes_try_put_frame [of req amb _ _ db] by (elim conjE) (metis)
    subgoal using hr notes_try_put_frame [of req amb _ _ db] by (elim conjE) (metis)
    subgoal using orq notes_try_put_frame [of "request_of ctx" amb _ _ db] by (elim conjE) (metis)
    subgoal using orq notes_try_put_frame [of "request_of ctx" amb _ _ db] by (elim conjE) (metis)
    subgoal using orq notes_try_put_frame [of "request_of ctx" amb _ _ db] by (elim conjE) (metis)
    done
qed

theorem update_frame_witness:
  "status_of (fst (sw_fetch ex_amb (ex_put (JObj [(''content'', JStr ''buy oat milk'')])) ex_env))
     = Some 200
   \<and> stored_field (map_of (entries (snd (sw_fetch ex_amb
         (ex_put (JObj [(''content'', JStr ''buy oat milk'')])) ex_env))) (note_key ''u'' ex_id))
       ''createdAt''
     = stored_field (map_of (entries ex_env) (note_key ''u'' ex_id)) ''createdAt''
   \<and> stored_field (map_of (entries (snd (pf_onRequest ex_amb
         (ex_put (JObj [(''content'', JStr ''buy oat milk'')])) ex_env))) (note_key ''u'' ex_id))
       ''createdAt''
     = stored_field (map_of (entries ex_env) (note_key ''u'' ex_id)) ''createdAt''
   \<and> map row_created_at (notes_table (snd (d1_handleRequest ex_amb
         (ex_put (JObj [(''content'', JStr ''buy oat milk'')])) ex_db)))
     = map row_created_at (notes_table ex_db)
   \<and> map row_created_at (notes_table (snd (d1_onRequest ex_amb
         (ex_ctx (JObj [(''content'', JStr ''buy oat milk'')])) ex_db)))
     = map row_created_at (notes_table ex_db)"
  using update_frame
    [where req = "ex_put (JObj [(''content'', JStr ''buy oat milk'')])"
       and ctx = "ex_ctx (JObj [(''content'', JStr ''buy oat milk'')])"
       and amb = ex_amb and env = ex_env and db = ex_db and u = "''u''" and n = ex_id
       and k = "''createdAt''" and key = "''notes:v:x''"]
  by (simp add: ex_defs sw_fetch_def pf_onRequest_def kv_handler_defs kv_binding_defs
      d1_handler_defs d1_binding_defs Let_def stored_field_def)

section \<open>What an update does with a property the body leaves out\<close>

text \<open>
  Spreading an array or a string gives properties named by decimal indices only, so the
  property \<open>content\<close> of a parsed value is the one that the spread has.
\<close>

lemma decimal_digits: "set (decimal n) \<subseteq> set ''0123456789''"
proof (induction n rule: decimal.induct)
  case (1 n)
  have d: "''0123456789'' ! m \<in> set ''0123456789''" if "m < 10" for m
    using that nth_mem [of m "''0123456789''"] by simp
  show ?case
  proof (cases "n < 10")
    case True
    then show ?thesis
      using d [of n] by (subst decimal.simps) simp
  next
    case False
    then have "set (decimal (n div 10)) \<subseteq> set ''0123456789''"
      using "1.IH" by simp
    moreover have "''0123456789'' ! (n mod 10) \<in> set ''0123456789''"
      using d [of "n mod 10"] by simp
    ultimately show ?thesis
      using False by (subst decimal.simps) simp
  qed
qed

lemma content_not_decimal: "''content'' \<noteq> decimal n"
proof
  assume "''content'' = decimal n"
  then have "CHR ''c'' \<in> set (decimal n)"
    by (metis list.set_intros(1))
  then show False
    using decimal_digits [of n] by auto
qed

lemma content_not_index: "map_of (zip (map decimal [0..<length xs]) xs) ''content'' = None"
  using content_not_decimal by (subst map_of_zip_is_None) auto

lemma get_prop_content_spread:
  "get_prop v ''content'' = Inr x \<Longrightarrow> map_of (spread v) ''content'' = x"
proof (cases v)
  case (JArr xs)
  assume "get_prop v ''content'' = Inr x"
  with JArr show ?thesis using content_not_index [of xs] by simp
next
  case (JStr s)
  assume "get_prop v ''content'' = Inr x"
  with JStr show ?thesis
    using content_not_index [of "map (\<lambda>c. JStr [c]) s"] by simp
qed auto

lemma updateNote_omitted_content:
  assumes "request_json req = Inr b" and "destructure b ''content'' = Inr c" and "nullish c"
    and "k \<noteq> ''updatedAt''"
  shows "stored_field (map_of (entries (snd (updateNote hs amb req env u n))) (note_key u n)) k
           = stored_field (map_of (entries env) (note_key u n)) k"
proof (cases "status_of (fst (updateNote hs amb req env u n)) = Some 200")
  case True
  show ?thesis
    using updateNote_success [OF True] assms
    by (auto simp add: stored_field_def update_conv' JSON_stringify_def map_of_updatedNote
        get_prop_content_spread)
next
  case False
  then show ?thesis
    using updateNote_failure [of hs amb req env u n] by simp
qed

lemma updateNote_supplied_content:
  assumes "status_of (fst (updateNote hs amb req env u n)) = Some 200"
    and "request_json req = Inr b" and "destructure b ''content'' = Inr c" and "\<not> nullish c"
  shows "stored_field (map_of (entries (snd (updateNote hs amb req env u n))) (note_key u n))
           ''content'' = c"
  using updateNote_success [OF assms(1)] assms(2-4)
  by (auto simp add: stored_field_def update_conv' JSON_stringify_def map_of_updatedNote)

lemma sw_fetch_put_cases:
  assumes "request_method req = ''PUT''" and "getUserId req = Some u"
    and "match_uuid_path (pathname req) = Some n"
  shows "sw_fetch amb req env = updateNote cors_headers amb req env u n
       \<or> status_of (fst (sw_fetch amb req env)) = Some 401 \<and> snd (sw_fetch amb req env) = env"
  using assms
  by (cases "u = []") (simp_all add: sw_fetch_def Let_def sw_handleUpdateNote_def)

lemma pf_onRequest_put_cases:
  assumes "request_method req = ''PUT''" and "getUserId req = Some u"
    and "match_uuid_path (pathname req) = Some n"
  shows "pf_onRequest amb req env = updateNote plain_headers amb req env u n
       \<or> status_of (fst (pf_onRequest amb req env)) = Some 401
         \<and> snd (pf_onRequest amb req env) = env"
  using assms
  by (cases "u = []") (simp_all add: pf_onRequest_def Let_def pf_handleUpdateNote_def)

lemma title_or_default_falsy: "\<not> truthy t \<Longrightarrow> d1_bind (title_or_default t) = Inr (SText untitled)"
  by (simp add: title_or_default_def)

lemma owned_update [simp]:
  "owned n s (r\<lparr>row_title := t, row_content := c\<rparr>) = owned n s r"
  by (simp add: owned_def)

lemma notes_try_put_title:
  assumes "request_method req = ''PUT''"
    and "status_of (fst (notes_try amb req s (Some n) db)) = Some 200"
    and "request_json req = Inr b" and "destructure b ''title'' = Inr t" and "\<not> truthy t"
    and "r \<in> set (notes_table (snd (notes_try amb req s (Some n) db)))" and "owned n s r"
  shows "row_title r = SText untitled"
proof -
  obtain b' title' t' c where
    b': "request_json req = Inr b'" and ti: "destructure b' ''title'' = Inr title'"
    and bi: "d1_bind (title_or_default title') = Inr t'"
    and tab: "notes_table (snd (notes_try amb req s (Some n) db))
      = map (\<lambda>r. if owned n s r then r\<lparr>row_title := t', row_content := c\<rparr> else r)
          (notes_table db)"
    using notes_try_put_success [OF assms(1,2)] by blast
  have "b' = b" using b' assms(3) by simp
  then have "title' = t" using ti assms(4) by simp
  then have t': "t' = SText untitled"
    using bi title_or_default_falsy [OF assms(5)] by simp
  have "r \<in> (\<lambda>r. if owned n s r then r\<lparr>row_title := t', row_content := c\<rparr> else r)
            ` set (notes_table db)"
    using assms(6) unfolding tab by simp
  then obtain r0
    where r0: "r = (if owned n s r0 then r0\<lparr>row_title := t', row_content := c\<rparr> else r0)"
    by (rule imageE)
  show ?thesis
  proof (cases "owned n s r0")
    case True
    then show ?thesis using r0 t' by simp
  next
    case False
    then show ?thesis using r0 assms(7) by simp
  qed
qed

lemma title_or_default_truthy: "truthy t \<Longrightarrow> title_or_default t = t"
  by (simp add: title_or_default_def)

lemma notes_try_put_omitted_content:
  "request_method req = ''PUT'' \<Longrightarrow> request_json req = Inr b \<Longrightarrow>
   destructure b ''content'' = Inr None \<Longrightarrow>
     notes_table (snd (notes_try amb req s noteId db)) = notes_table db"
  by (simp add: notes_try_def notes_switch_def split: sum.splits)

lemma d1_handleRequest_put:
  assumes "request_method req = ''PUT''" and "headers_get req ''X-User-Session'' = Some s"
    and "match_notes_path (pathname req) = Some (Some n)"
    and "status_of (fst (d1_handleRequest amb req db)) = Some 200"
  shows "d1_handleRequest amb req db = notes_try amb req s (Some n) db"
proof -
  have "n \<noteq> []"
    using assms(3) by (rule match_notes_path_group)
  then show ?thesis
    using d1_handleRequest_success [OF assms(2-4)] by simp
qed

lemma d1_onRequest_put:
  assumes "headers_get (request_of ctx) ''X-User-Session'' = Some s"
    and "params_notes ctx = Some (n # ns)"
    and "status_of (fst (d1_onRequest amb ctx db)) = Some 200"
  shows "d1_onRequest amb ctx db = notes_try amb (request_of ctx) s (Some n) db"
  using d1_onRequest_success [OF assms(1,3)] assms(2) by simp

lemma d1_handleRequest_put_omitted_content:
  assumes "request_method req = ''PUT''"
    and "request_json req = Inr b" and "destructure b ''content'' = Inr None"
  shows "notes_table (snd (d1_handleRequest amb req db)) = notes_table db"
  using notes_try_put_omitted_content [OF assms]
  by (simp add: d1_handleRequest_def Let_def split: option.splits)

lemma d1_onRequest_put_omitted_content:
  assumes "request_method (request_of ctx) = ''PUT''"
    and "request_json (request_of ctx) = Inr b" and "destructure b ''content'' = Inr None"
  shows "notes_table (snd (d1_onRequest amb ctx db)) = notes_table db"
  using notes_try_put_omitted_content [OF assms]
  by (simp add: d1_onRequest_def Let_def split: option.splits)

text \<open>
  Claim C4, as stated, fails on the relational handlers: the body below leaves the title
  out, and the title of the row changes from \<open>list\<close> to the placeholder title.
\<close>

theorem relational_update_resets_title_counterexample:
  "notes_table (snd (d1_handleRequest
          \<lparr>randomUUID = ''00000000-0000-4000-8000-000000000000'', Date_now = 1700000000500\<rparr>
          \<lparr>request_method = ''PUT'',
            pathname = ''/api/notes/123e4567-e89b-12d3-a456-426614174000'',
            headers = [(''X-User-Session'', ''s'')],
            body = Stringified (JObj [(''content'', JStr ''buy oat milk'')])\<rparr>
          \<lparr>notes_table =
             [\<lparr>row_id = ''123e4567-e89b-12d3-a456-426614174000'', row_user_session_id = ''s'',
               row_title = SText ''list'', row_content = SText ''buy milk'',
               row_created_at = 1700000000000\<rparr>],
            d1_calls = [], d1_outage = None\<rparr>))
     = [\<lparr>row_id = ''123e4567-e89b-12d3-a456-426614174000'', row_user_session_id = ''s'',
         row_title = SText untitled, row_content = SText ''buy oat milk'',
         row_created_at = 1700000000000\<rparr>]"
  by (simp add: d1_handler_defs d1_binding_defs Let_def)

text \<open>
  Claim C4, amended. In the key/value handlers an update merges. An update that is not
  answered with status 200 leaves every entry as it was. When the body leaves the
  content out (or gives \<open>null\<close>), every property of the stored record but
  \<open>updatedAt\<close> is as before, the content among them, whatever the outcome. When the
  body gives a content and the update succeeds, that is the content stored. In the
  relational handlers an update does not merge: a \<open>PUT\<close> that succeeds gives every row
  under the identifier and the scope the title and the content bound from the body,
  where a title that is left out (or falsy) is bound as the placeholder title and any
  other title as it is; and when the body leaves the content out the update is not
  run and the table stays as it was.
\<close>

theorem update_merge:
  "(request_method req = ''PUT'' \<and> getUserId req = Some u
      \<and> match_uuid_path (pathname req) = Some n \<longrightarrow>
      (status_of (fst (sw_fetch amb req env)) \<noteq> Some 200 \<longrightarrow>
         entries (snd (sw_fetch amb req env)) = entries env)
      \<and> (status_of (fst (pf_onRequest amb req env)) \<noteq> Some 200 \<longrightarrow>
         entries (snd (pf_onRequest amb req env)) = entries env)
      \<and> (request_json req = Inr b \<and> destructure b ''content'' = Inr c \<and> nullish c
           \<and> k \<noteq> ''updatedAt'' \<longrightarrow>
         stored_field (map_of (entries (snd (sw_fetch amb req env))) (note_key u n)) k
           = stored_field (map_of (entries env) (note_key u n)) k
         \<and> stored_field (map_of (entries (snd (pf_onRequest amb req env))) (note_key u n)) k
           = stored_field (map_of (entries env) (note_key u n)) k)
      \<and> (request_json req = Inr b \<and> destructure b ''content'' = Inr c \<and> \<not> nullish c
           \<and> status_of (fst (sw_fetch amb req env)) = Some 200 \<longrightarrow>
         stored_field (map_of (entries (snd (sw_fetch amb req env))) (note_key u n)) ''content''
           = c)
      \<and> (request_json req = Inr b \<and> destructure b ''content'' = Inr c \<and> \<not> nullish c
           \<and> status_of (fst (pf_onRequest amb req env)) = Some 200 \<longrightarrow>
         stored_field (map_of (entries (snd (pf_onRequest amb req env))) (note_key u n))
             ''content''
           = c))
   \<and> (request_method req = ''PUT'' \<and> headers_get req ''X-User-Session'' = Some s
      \<and> s \<noteq> [] \<and> match_notes_path (pathname req) = Some (Some m)
      \<and> d1_outage db = None \<and> request_json req = Inr b
      \<and> destructure b ''title'' = Inr t \<and> destructure b ''content'' = Inr c
      \<and> d1_bind (title_or_default t) = Inr tv \<and> d1_bind c = Inr cv \<longrightarrow>
      status_of (fst (d1_handleRequest amb req db)) = Some 200
      \<and> notes_table (snd (d1_handleRequest amb req db))
          = map (\<lambda>r. if owned m s r then r\<lparr>row_title := tv, row_content := cv\<rparr> else r)
              (notes_table db))
   \<and> (request_method (request_of ctx) = ''PUT''
      \<and> headers_get (request_of ctx) ''X-User-Session'' = Some s \<and> s \<noteq> []
      \<and> params_notes ctx = Some (m # ms) \<and> m \<noteq> []
      \<and> d1_outage db = None \<and> request_json (request_of ctx) = Inr b
      \<and> destructure b ''title'' = Inr t \<and> destructure b ''content'' = Inr c
      \<and> d1_bind (title_or_default t) = Inr tv \<and> d1_bind c = Inr cv \<longrightarrow>
      status_of (fst (d1_onRequest amb ctx db)) = Some 200
      \<and> notes_table (snd (d1_onRequest amb ctx db))
          = map (\<lambda>r. if owned m s r then r\<lparr>row_title := tv, row_content := cv\<rparr> else r)
              (notes_table db))
   \<and> (\<not> truthy t \<longrightarrow> d1_bind (title_or_default t) = Inr (SText untitled))
   \<and> (truthy t \<longrightarrow> d1_bind (title_or_default t) = d1_bind t)
   \<and> (request_method req = ''PUT'' \<and> headers_get req ''X-User-Session'' = Some s
      \<and> match_notes_path (pathname req) = Some (Some m)
      \<and> status_of (fst (d1_handleRequest amb req db)) = Some 200
      \<and> request_json req = Inr b \<and> destructure b ''title'' = Inr t \<and> \<not> truthy t
      \<and> r \<in> set (notes_table (snd (d1_handleRequest amb req db))) \<and> owned m s r \<longrightarrow>
      row_title r = SText untitled)
   \<and> (request_method (request_of ctx) = ''PUT''
      \<and> headers_get (request_of ctx) ''X-User-Session'' = Some s
      \<and> params_notes ctx = Some (m # ms)
      \<and> status_of (fst (d1_onRequest amb ctx db)) = Some 200
      \<and> request_json (request_of ctx) = Inr b \<and> destructure b ''title'' = Inr t \<and> \<not> truthy t
      \<and> r \<in> set (notes_table (snd (d1_onRequest amb ctx db))) \<and> owned m s r \<longrightarrow>
      row_title r = SText untitled)
   \<and> (request_method req = ''PUT'' \<and> request_json req = Inr b
      \<and> destructure b ''content'' = Inr None \<longrightarrow>
      notes_table (snd (d1_handleRequest amb req db)) = notes_table db)
   \<and> (request_method (request_of ctx) = ''PUT'' \<and> request_json (request_of ctx) = Inr b
      \<and> destructure b ''content'' = Inr None \<longrightarrow>
      notes_table (snd (d1_onRequest amb ctx db)) = notes_table db)"
proof (intro conjI impI; (elim conjE)?)
  assume a: "request_method req = ''PUT''" "getUserId req = Some u"
    "match_uuid_path (pathname req) = Some n"
    and f: "status_of (fst (sw_fetch amb req env)) \<noteq> Some 200"
  show "entries (snd (sw_fetch amb req env)) = entries env"
    using sw_fetch_put_cases [OF a, of amb env] f
      updateNote_failure [of cors_headers amb req env u n] by auto
next
  assume a: "request_method req = ''PUT''" "getUserId req = Some u"
    "match_uuid_path (pathname req) = Some n"
    and f: "status_of (fst (pf_onRequest amb req env)) \<noteq> Some 200"
  show "entries (snd (pf_onRequest amb req env)) = entries env"
    using pf_onRequest_put_cases [OF a, of amb env] f
      updateNote_failure [of plain_headers amb req env u n] by auto
next
  assume a: "request_method req = ''PUT''" "getUserId req = Some u"
    "match_uuid_path (pathname req) = Some n"
    and b: "request_json req = Inr b" "destructure b ''content'' = Inr c" "nullish c"
    "k \<noteq> ''updatedAt''"
  show "stored_field (map_of (entries (snd (sw_fetch amb req env))) (note_key u n)) k
           = stored_field (map_of (entries env) (note_key u n)) k"
    using sw_fetch_put_cases [OF a, of amb env]
      updateNote_omitted_content [OF b, of cors_headers amb env u n] by auto
  show "stored_field (map_of (entries (snd (pf_onRequest amb req env))) (note_key u n)) k
           = stored_field (map_of (entries env) (note_key u n)) k"
    using pf_onRequest_put_cases [OF a, of amb env]
      updateNote_omitted_content [OF b, of plain_headers amb env u n] by auto
next
  assume a: "request_method req = ''PUT''" "getUserId req = Some u"
    "match_uuid_path (pathname req) = Some n"
    and b: "request_json req = Inr b" "destructure b ''content'' = Inr c" "\<not> nullish c"
    and st: "status_of (fst (sw_fetch amb req env)) = Some 200"
  have eq: "sw_fetch amb req env = updateNote cors_headers amb req env u n"
    using a st by (rule sw_fetch_put_200)
  show "stored_field (map_of (entries (snd (sw_fetch amb req env))) (note_key u n)) ''content''
           = c"
    using updateNote_supplied_content [of cors_headers amb req env u n b c] b st eq by simp
next
  assume a: "request_method req = ''PUT''" "getUserId req = Some u"
    "match_uuid_path (pathname req) = Some n"
    and b: "request_json req = Inr b" "destructure b ''content'' = Inr c" "\<not> nullish c"
    and st: "status_of (fst (pf_onRequest amb req env)) = Some 200"
  have eq: "pf_onRequest amb req env = updateNote plain_headers amb req env u n"
    using a st by (rule pf_onRequest_put_200)
  show "stored_field (map_of (entries (snd (pf_onRequest amb req env))) (note_key u n))
           ''content'' = c"
    using updateNote_supplied_content [of plain_headers amb req env u n b c] b st eq by simp
next
  assume a: "request_method req = ''PUT''" "headers_get req ''X-User-Session'' = Some s"
    "s \<noteq> []" "match_notes_path (pathname req) = Some (Some m)"
    and c: "d1_outage db = None" "request_json req = Inr b"
    "destructure b ''title'' = Inr t" "destructure b ''content'' = Inr c"
    "d1_bind (title_or_default t) = Inr tv" "d1_bind c = Inr cv"
  have m: "m \<noteq> []"
    using a(4) by (rule match_notes_path_group)
  have eq: "d1_handleRequest amb req db = notes_try amb req s (Some m) db"
    using d1_handleRequest_runs_try [OF a(2,3,4), of amb db] m by simp
  show "status_of (fst (d1_handleRequest amb req db)) = Some 200"
    using eq notes_try_put_succeeds(1) [OF a(1) m c, of amb s] by simp
  show "notes_table (snd (d1_handleRequest amb req db))
          = map (\<lambda>r. if owned m s r then r\<lparr>row_title := tv, row_content := cv\<rparr> else r)
              (notes_table db)"
    using eq notes_try_put_succeeds(2) [OF a(1) m c, of amb s] by simp
next
  assume a: "request_method (request_of ctx) = ''PUT''"
    "headers_get (request_of ctx) ''X-User-Session'' = Some s" "s \<noteq> []"
    "params_notes ctx = Some (m # ms)" "m \<noteq> []"
    and c: "d1_outage db = None" "request_json (request_of ctx) = Inr b"
    "destructure b ''title'' = Inr t" "destructure b ''content'' = Inr c"
    "d1_bind (title_or_default t) = Inr tv" "d1_bind c = Inr cv"
  have eq: "d1_onRequest amb ctx db = notes_try amb (request_of ctx) s (Some m) db"
    using d1_onRequest_runs_try [OF a(2,3), of amb db] a(4) by simp
  show "status_of (fst (d1_onRequest amb ctx db)) = Some 200"
    using eq notes_try_put_succeeds(1) [OF a(1,5) c, of amb s] by simp
  show "notes_table (snd (d1_onRequest amb ctx db))
          = map (\<lambda>r. if owned m s r then r\<lparr>row_title := tv, row_content := cv\<rparr> else r)
              (notes_table db)"
    using eq notes_try_put_succeeds(2) [OF a(1,5) c, of amb s] by simp
next
  assume "\<not> truthy t"
  then show "d1_bind (title_or_default t) = Inr (SText untitled)"
    by (rule title_or_default_falsy)
next
  assume "truthy t"
  then show "d1_bind (title_or_default t) = d1_bind t"
    by (simp add: title_or_default_truthy)
next
  assume a: "request_method req = ''PUT''" "headers_get req ''X-User-Session'' = Some s"
    "match_notes_path (pathname req) = Some (Some m)"
    "status_of (fst (d1_handleRequest amb req db)) = Some 200"
    "request_json req = Inr b" "destructure b ''title'' = Inr t" "\<not> truthy t"
    "r \<in> set (notes_table (snd (d1_handleRequest amb req db)))" "owned m s r"
  have eq: "d1_handleRequest amb req db = notes_try amb req s (Some m) db"
    using a(1-4) by (rule d1_handleRequest_put)
  show "row_title r = SText untitled"
    using notes_try_put_title [of req amb s m db b t r] a eq by simp
next
  assume a: "request_method (request_of ctx) = ''PUT''"
    "headers_get (request_of ctx) ''X-User-Session'' = Some s"
    "params_notes ctx = Some (m # ms)"
    "status_of (fst (d1_onRequest amb ctx db)) = Some 200"
    "request_json (request_of ctx) = Inr b" "destructure b ''title'' = Inr t" "\<not> truthy t"
    "r \<in> set (notes_table (snd (d1_onRequest amb ctx db)))" "owned m s r"
  have eq: "d1_onRequest amb ctx db = notes_try amb (request_of ctx) s (Some m) db"
    using a(2-4) by (rule d1_onRequest_put)
  show "row_title r = SText untitled"
    using notes_try_put_title [of "request_of ctx" amb s m db b t r] a eq by simp
next
  assume "request_method req = ''PUT''" "request_json req = Inr b"
    "destructure b ''content'' = Inr None"
  then show "notes_table (snd (d1_handleRequest amb req db)) = notes_table db"
    by (rule d1_handleRequest_put_omitted_content)
next
  assume "request_method (request_of ctx) = ''PUT''" "request_json (request_of ctx) = Inr b"
    "destructure b ''content'' = Inr None"
  then show "notes_table (snd (d1_onRequest amb ctx db)) = notes_table db"
    by (rule d1_onRequest_put_omitted_content)
qed

theorem update_merge_witness:
  "status_of (fst (sw_fetch ex_amb (ex_put (JObj [])) ex_env)) = Some 200
   \<and> stored_field (map_of (entries (snd (sw_fetch ex_amb (ex_put (JObj [])) ex_env)))
         (note_key ''u'' ex_id)) ''content''
     = stored_field (map_of (entries ex_env) (note_key ''u'' ex_id)) ''content''
   \<and> stored_field (map_of (entries (snd (pf_onRequest ex_amb (ex_put (JObj [])) ex_env)))
         (note_key ''u'' ex_id)) ''content''
     = stored_field (map_of (entries ex_env) (note_key ''u'' ex_id)) ''content''
   \<and> stored_field (map_of (entries (snd (sw_fetch ex_amb
         (ex_put (JObj [(''content'', JStr ''buy oat milk'')])) ex_env)))
         (note_key ''u'' ex_id)) ''content'' = Some (JStr ''buy oat milk'')
   \<and> status_of (fst (d1_handleRequest ex_amb
         (ex_put (JObj [(''content'', JStr ''buy oat milk'')])) ex_db)) = Some 200
   \<and> notes_table (snd (d1_handleRequest ex_amb
         (ex_put (JObj [(''content'', JStr ''buy oat milk'')])) ex_db))
     = map (\<lambda>r. if owned ex_id ''s'' r
                 then r\<lparr>row_title := SText untitled, row_content := SText ''buy oat milk''\<rparr>
                 else r) (notes_table ex_db)
   \<and> map row_title (notes_table (snd (d1_handleRequest ex_amb
         (ex_put (JObj [(''content'', JStr ''buy oat milk'')])) ex_db))) = [SText untitled]
   \<and> map row_title (notes_table (snd (d1_onRequest ex_amb
         (ex_ctx (JObj [(''content'', JStr ''buy oat milk'')])) ex_db))) = [SText untitled]
   \<and> notes_table (snd (d1_handleRequest ex_amb (ex_put (JObj [])) ex_db)) = notes_table ex_db
   \<and> notes_table (snd (d1_onRequest ex_amb (ex_ctx (JObj [])) ex_db)) = notes_table ex_db"
  using update_merge
    [where req = "ex_put (JObj [])" and ctx = "ex_ctx (JObj [])"
       and amb = ex_amb and env = ex_env and db = ex_db and u = "''u''" and n = ex_id
       and b = "JObj []" and c = None and k = "''content''"]
    update_merge
    [where req = "ex_put (JObj [(''content'', JStr ''buy oat milk'')])"
       and ctx = "ex_ctx (JObj [(''content'', JStr ''buy oat milk'')])"
       and amb = ex_amb and env = ex_env and db = ex_db and s = "''s''" and m = ex_id
       and u = "''u''" and n = ex_id
       and ms = "[]" and b = "JObj [(''content'', JStr ''buy oat milk'')]" and t = None
       and c = "Some (JStr ''buy oat milk'')"
       and tv = "SText untitled" and cv = "SText ''buy oat milk''"
       and r = "\<lparr>row_id = ex_id, row_user_session_id = ''s'', row_title = SText untitled,
                 row_content = SText ''buy oat milk'', row_created_at = 1700000000000\<rparr>"]
  by (simp add: ex_defs sw_fetch_def pf_onRequest_def kv_handler_defs kv_binding_defs
      d1_handler_defs d1_binding_defs Let_def stored_field_def)

section \<open>Validation of the body of a create\<close>

text \<open>
  \<open>handleCreateNote\<close> of the key/value files reads the body, takes the content out of
  it and tests its type, all before the one call on the namespace. Reading the body
  throws when it is not JSON, and taking the content out of \<open>null\<close> throws as well.
\<close>

lemma createNote_invalid:
  assumes "request_json req = Inr b" and "destructure b ''content'' = Inr c" and "\<not> is_string c"
  shows "createNote hs amb req env u
           = (Responded (kv_errorResponse hs msg_content_string 400), env)"
  using assms by (simp add: createNote_def)

lemma createNote_unparseable:
  assumes "request_json req = Inl e"
  shows "createNote hs amb req env u = (Threw e, env)"
  using assms by (simp add: createNote_def)

lemma createNote_null:
  assumes "request_json req = Inr b" and "destructure b ''content'' = Inl e"
  shows "createNote hs amb req env u = (Threw e, env)"
  using assms by (simp add: createNote_def)

lemma sw_fetch_post:
  assumes "getUserId req = Some u" and "u \<noteq> []" and "pathname req = ''/api/notes''"
    and "request_method req = ''POST''"
  shows "sw_fetch amb req env = createNote cors_headers amb req env u"
  using assms by (simp add: sw_fetch_def Let_def sw_handleCreateNote_def)

lemma pf_onRequest_post:
  assumes "getUserId req = Some u" and "u \<noteq> []" and "pathname req = ''/api/notes''"
    and "request_method req = ''POST''"
  shows "pf_onRequest amb req env = createNote plain_headers amb req env u"
  using assms by (simp add: pf_onRequest_def Let_def pf_handleCreateNote_def)

text \<open>
  The \<open>POST\<close> case of \<open>functions/api/notes.js\<close> has no test of its own: what \<open>bind\<close>
  takes is inserted, and what \<open>bind\<close> rejects is answered from the \<open>catch\<close>.
\<close>

lemma notes_switch_post_not_400:
  "request_method req = ''POST'' \<Longrightarrow>
     (\<forall>r. fst (notes_switch amb req s noteId db) = Inr r \<longrightarrow> status r = 201)"
  by (simp add: notes_switch_def d1_binding_defs Let_def split: sum.splits option.splits)

lemma notes_try_post_not_400:
  assumes "request_method req = ''POST''"
  shows "status_of (fst (notes_try amb req s noteId db)) \<noteq> Some 400"
  using notes_switch_post_not_400 [OF assms, of amb s noteId db]
  by (cases "notes_switch amb req s noteId db")
     (auto simp add: notes_try_def split: sum.splits)

lemma d1_handleRequest_post_not_400:
  assumes "request_method req = ''POST''"
  shows "status_of (fst (d1_handleRequest amb req db)) \<noteq> Some 400"
  using notes_try_post_not_400 [OF assms]
  by (simp add: d1_handleRequest_def Let_def split: option.splits)

lemma d1_onRequest_post_not_400:
  assumes "request_method (request_of ctx) = ''POST''"
  shows "status_of (fst (d1_onRequest amb ctx db)) \<noteq> Some 400"
  using notes_try_post_not_400 [OF assms]
  by (simp add: d1_onRequest_def Let_def split: option.splits)

lemma notes_try_post_inserts:
  assumes "request_method req = ''POST''" and "d1_outage db = None"
    and "request_json req = Inr b"
    and "destructure b ''title'' = Inr t" and "destructure b ''content'' = Inr c"
    and "d1_bind (title_or_default t) = Inr tv" and "d1_bind c = Inr cv"
  shows "status_of (fst (notes_try amb req s noteId db)) = Some 201"
    and "notes_table (snd (notes_try amb req s noteId db))
           = notes_table db
             @ [\<lparr>row_id = randomUUID amb, row_user_session_id = s, row_title = tv,
                 row_content = cv, row_created_at = Date_now amb\<rparr>]"
  using assms
  by (simp_all add: notes_try_def notes_switch_def run_insert_def d1_called_def Let_def)

lemma notes_try_post_rejected:
  assumes "request_method req = ''POST''"
    and "request_json req = Inr b"
    and "destructure b ''title'' = Inr t" and "destructure b ''content'' = Inr c"
    and "d1_bind (title_or_default t) = Inr tv" and "d1_bind c = Inl e"
  shows "notes_try amb req s noteId db
           = (Responded (d1_errorResponse (''Database error: '' @ message e) 500), db)"
  using assms
  by (simp add: notes_try_def notes_switch_def Let_def)

lemma notes_try_post_title_rejected:
  assumes "request_method req = ''POST''"
    and "request_json req = Inr b"
    and "destructure b ''title'' = Inr t" and "destructure b ''content'' = Inr c"
    and "d1_bind (title_or_default t) = Inl e"
  shows "notes_try amb req s noteId db
           = (Responded (d1_errorResponse (''Database error: '' @ message e) 500), db)"
  using assms
  by (simp add: notes_try_def notes_switch_def Let_def)

text \<open>
  Claim C8, as stated, fails in two ways. The relational handlers do not look at the
  type of the content: a \<open>POST\<close> whose content is the number 5 is answered with status
  201, and the row is inserted. The key/value handlers answer no status at all when
  the body is \<open>null\<close> or is not JSON: the handler throws, here the \<open>TypeError\<close> of the
  destructuring pattern and the \<open>SyntaxError\<close> of the body.
\<close>

theorem create_validation_counterexample:
  "status_of (fst (d1_handleRequest
          \<lparr>randomUUID = ''123e4567-e89b-12d3-a456-426614174000'', Date_now = 1700000000000\<rparr>
          \<lparr>request_method = ''POST'', pathname = ''/api/notes'',
            headers = [(''X-User-Session'', ''s'')],
            body = Stringified (JObj [(''content'', JNum 5)])\<rparr>
          \<lparr>notes_table = [], d1_calls = [], d1_outage = None\<rparr>)) = Some 201
   \<and> snd (d1_handleRequest
          \<lparr>randomUUID = ''123e4567-e89b-12d3-a456-426614174000'', Date_now = 1700000000000\<rparr>
          \<lparr>request_method = ''POST'', pathname = ''/api/notes'',
            headers = [(''X-User-Session'', ''s'')],
            body = Stringified (JObj [(''content'', JNum 5)])\<rparr>
          \<lparr>notes_table = [], d1_calls = [], d1_outage = None\<rparr>)
     = \<lparr>notes_table =
          [\<lparr>row_id = ''123e4567-e89b-12d3-a456-426614174000'', row_user_session_id = ''s'',
            row_title = SText untitled, row_content = SInt 5,
            row_created_at = 1700000000000\<rparr>],
        d1_calls = [D1Insert], d1_outage = None\<rparr>
   \<and> pf_onRequest
          \<lparr>randomUUID = ''123e4567-e89b-12d3-a456-426614174000'', Date_now = 1700000000000\<rparr>
          \<lparr>request_method = ''POST'', pathname = ''/api/notes'',
            headers = [(''X-User-Token'', ''u'')], body = Stringified JNull\<rparr>
          \<lparr>entries = [], kv_calls = [], kv_outage = None\<rparr>
     = (Threw (TypeError (''Cannot destructure property '' @ [CHR 0x27] @ ''content''
                 @ [CHR 0x27] @ '' of '(intermediate value)' as it is null.'')),
        \<lparr>entries = [], kv_calls = [], kv_outage = None\<rparr>)
   \<and> sw_fetch
          \<lparr>randomUUID = ''123e4567-e89b-12d3-a456-426614174000'', Date_now = 1700000000000\<rparr>
          \<lparr>request_method = ''POST'', pathname = ''/api/notes'',
            headers = [(''X-User-Token'', ''u'')],
            body = Unparseable ''Unexpected token h in JSON at position 0''\<rparr>
          \<lparr>entries = [], kv_calls = [], kv_outage = None\<rparr>
     = (Threw (SyntaxError ''Unexpected token h in JSON at position 0''),
        \<lparr>entries = [], kv_calls = [], kv_outage = None\<rparr>)"
  by (simp add: d1_handler_defs d1_binding_defs pf_onRequest_def sw_fetch_def kv_handler_defs
      Let_def)

text \<open>
  Claim C8, amended. In both key/value handlers a \<open>POST\<close> on the collection path that
  carries an identity never reaches the namespace with an invalid body, and no note is
  created: when the body is a JSON value other than \<open>null\<close> with the content missing or
  not a string, the answer has status 400; when the body is not JSON or is \<open>null\<close>, the
  handler throws instead of answering. The relational handlers do not validate the
  body and never answer a \<open>POST\<close> with status 400: when the title and the content can
  be bound, whatever their types, the row is inserted and the answer has status 201;
  when the content is missing, or the title or the content cannot be bound, the answer
  has status 500 and the database is not reached.
\<close>

theorem create_validation:
  "(getUserId req = Some u \<and> u \<noteq> [] \<and> pathname req = ''/api/notes''
      \<and> request_method req = ''POST'' \<longrightarrow>
      (request_json req = Inr b \<and> destructure b ''content'' = Inr c \<and> \<not> is_string c \<longrightarrow>
         sw_fetch amb req env
           = (Responded (kv_errorResponse cors_headers msg_content_string 400), env)
         \<and> status_of (fst (sw_fetch amb req env)) = Some 400
         \<and> pf_onRequest amb req env
           = (Responded (kv_errorResponse plain_headers msg_content_string 400), env)
         \<and> status_of (fst (pf_onRequest amb req env)) = Some 400)
      \<and> (request_json req = Inl e \<longrightarrow>
         sw_fetch amb req env = (Threw e, env) \<and> pf_onRequest amb req env = (Threw e, env))
      \<and> (request_json req = Inr b \<and> destructure b ''content'' = Inl e \<longrightarrow>
         sw_fetch amb req env = (Threw e, env) \<and> pf_onRequest amb req env = (Threw e, env)))
   \<and> (request_method req = ''POST'' \<longrightarrow>
      status_of (fst (d1_handleRequest amb req db)) \<noteq> Some 400)
   \<and> (request_method (request_of ctx) = ''POST'' \<longrightarrow>
      status_of (fst (d1_onRequest amb ctx db)) \<noteq> Some 400)
   \<and> (request_method req = ''POST'' \<and> headers_get req ''X-User-Session'' = Some s
      \<and> s \<noteq> [] \<and> match_notes_path (pathname req) = Some g
      \<and> request_json req = Inr b
      \<and> destructure b ''title'' = Inr t \<and> destructure b ''content'' = Inr c
      \<and> d1_bind (title_or_default t) = Inr tv \<longrightarrow>
      (d1_outage db = None \<and> d1_bind c = Inr cv \<longrightarrow>
         status_of (fst (d1_handleRequest amb req db)) = Some 201
         \<and> notes_table (snd (d1_handleRequest amb req db))
             = notes_table db
               @ [\<lparr>row_id = randomUUID amb, row_user_session_id = s, row_title = tv,
                   row_content = cv, row_created_at = Date_now amb\<rparr>])
      \<and> (d1_bind c = Inl e \<longrightarrow>
         d1_handleRequest amb req db
           = (Responded (d1_errorResponse (''Database error: '' @ message e) 500), db)))
   \<and> (request_method req = ''POST'' \<and> headers_get req ''X-User-Session'' = Some s
      \<and> s \<noteq> [] \<and> match_notes_path (pathname req) = Some g
      \<and> request_json req = Inr b
      \<and> destructure b ''title'' = Inr t \<and> destructure b ''content'' = Inr c
      \<and> d1_bind (title_or_default t) = Inl e \<longrightarrow>
      d1_handleRequest amb req db
        = (Responded (d1_errorResponse (''Database error: '' @ message e) 500), db))
   \<and> (request_method (request_of ctx) = ''POST''
      \<and> headers_get (request_of ctx) ''X-User-Session'' = Some s \<and> s \<noteq> []
      \<and> request_json (request_of ctx) = Inr b
      \<and> destructure b ''title'' = Inr t \<and> destructure b ''content'' = Inr c
      \<and> d1_bind (title_or_default t) = Inr tv \<longrightarrow>
      (d1_outage db = None \<and> d1_bind c = Inr cv \<longrightarrow>
         status_of (fst (d1_onRequest amb ctx db)) = Some 201
         \<and> notes_table (snd (d1_onRequest amb ctx db))
             = notes_table db
               @ [\<lparr>row_id = randomUUID amb, row_user_session_id = s, row_title = tv,
                   row_content = cv, row_created_at = Date_now amb\<rparr>])
      \<and> (d1_bind c = Inl e \<longrightarrow>
         d1_onRequest amb ctx db
           = (Responded (d1_errorResponse (''Database error: '' @ message e) 500), db)))
   \<and> (request_method (request_of ctx) = ''POST''
      \<and> headers_get (request_of ctx) ''X-User-Session'' = Some s \<and> s \<noteq> []
      \<and> request_json (request_of ctx) = Inr b
      \<and> destructure b ''title'' = Inr t \<and> destructure b ''content'' = Inr c
      \<and> d1_bind (title_or_default t) = Inl e \<longrightarrow>
      d1_onRequest amb ctx db
        = (Responded (d1_errorResponse (''Database error: '' @ message e) 500), db))"
proof (intro conjI impI; (elim conjE)?)
  assume a: "getUserId req = Some u" "u \<noteq> []" "pathname req = ''/api/notes''"
    "request_method req = ''POST''"
    and b: "request_json req = Inr b" "destructure b ''content'' = Inr c" "\<not> is_string c"
  have sw: "sw_fetch amb req env = createNote cors_headers amb req env u"
    using a by (rule sw_fetch_post)
  have pf: "pf_onRequest amb req env = createNote plain_headers amb req env u"
    using a by (rule pf_onRequest_post)
  show "sw_fetch amb req env
           = (Responded (kv_errorResponse cors_headers msg_content_string 400), env)"
    using sw createNote_invalid [OF b] by simp
  then show "status_of (fst (sw_fetch amb req env)) = Some 400"
    by simp
  show "pf_onRequest amb req env
           = (Responded (kv_errorResponse plain_headers msg_content_string 400), env)"
    using pf createNote_invalid [OF b] by simp
  then show "status_of (fst (pf_onRequest amb req env)) = Some 400"
    by simp
next
  assume a: "getUserId req = Some u" "u \<noteq> []" "pathname req = ''/api/notes''"
    "request_method req = ''POST''"
    and b: "request_json req = Inl e"
  show "sw_fetch amb req env = (Threw e, env)"
    using sw_fetch_post [OF a] createNote_unparseable [OF b] by simp
  show "pf_onRequest amb req env = (Threw e, env)"
    using pf_onRequest_post [OF a] createNote_unparseable [OF b] by simp
next
  assume a: "getUserId req = Some u" "u \<noteq> []" "pathname req = ''/api/notes''"
    "request_method req = ''POST''"
    and b: "request_json req = Inr b" "destructure b ''content'' = Inl e"
  show "sw_fetch amb req env = (Threw e, env)"
    using sw_fetch_post [OF a] createNote_null [OF b] by simp
  show "pf_onRequest amb req env = (Threw e, env)"
    using pf_onRequest_post [OF a] createNote_null [OF b] by simp
next
  assume "request_method req = ''POST''"
  then show "status_of (fst (d1_handleRequest amb req db)) \<noteq> Some 400"
    by (rule d1_handleRequest_post_not_400)
next
  assume "request_method (request_of ctx) = ''POST''"
  then show "status_of (fst (d1_onRequest amb ctx db)) \<noteq> Some 400"
    by (rule d1_onRequest_post_not_400)
next
  assume a: "request_method req = ''POST''" "headers_get req ''X-User-Session'' = Some s"
    "s \<noteq> []" "match_notes_path (pathname req) = Some g"
    and b: "request_json req = Inr b" "destructure b ''title'' = Inr t"
    "destructure b ''content'' = Inr c" "d1_bind (title_or_default t) = Inr tv"
    and c: "d1_outage db = None" "d1_bind c = Inr cv"
  have eq: "d1_handleRequest amb req db
      = notes_try amb req s (if str_truthy g then g else None) db"
    using a(2-4) by (rule d1_handleRequest_runs_try)
  show "status_of (fst (d1_handleRequest amb req db)) = Some 201"
    using eq notes_try_post_inserts(1) [OF a(1) c(1) b c(2)] by simp
  show "notes_table (snd (d1_handleRequest amb req db))
             = notes_table db
               @ [\<lparr>row_id = randomUUID amb, row_user_session_id = s, row_title = tv,
                   row_content = cv, row_created_at = Date_now amb\<rparr>]"
    using eq notes_try_post_inserts(2) [OF a(1) c(1) b c(2)] by simp
next
  assume a: "request_method req = ''POST''" "headers_get req ''X-User-Session'' = Some s"
    "s \<noteq> []" "match_notes_path (pathname req) = Some g"
    and b: "request_json req = Inr b" "destructure b ''title'' = Inr t"
    "destructure b ''content'' = Inr c" "d1_bind (title_or_default t) = Inr tv"
    and c: "d1_bind c = Inl e"
  have eq: "d1_handleRequest amb req db
      = notes_try amb req s (if str_truthy g then g else None) db"
    using a(2-4) by (rule d1_handleRequest_runs_try)
  show "d1_handleRequest amb req db
           = (Responded (d1_errorResponse (''Database error: '' @ message e) 500), db)"
    using eq notes_try_post_rejected [OF a(1) b c] by simp
next
  assume a: "request_method req = ''POST''" "headers_get req ''X-User-Session'' = Some s"
    "s \<noteq> []" "match_notes_path (pathname req) = Some g"
    and b: "request_json req = Inr b" "destructure b ''title'' = Inr t"
    "destructure b ''content'' = Inr c" "d1_bind (title_or_default t) = Inl e"
  have eq: "d1_handleRequest amb req db
      = notes_try amb req s (if str_truthy g then g else None) db"
    using a(2-4) by (rule d1_handleRequest_runs_try)
  show "d1_handleRequest amb req db
           = (Responded (d1_errorResponse (''Database error: '' @ message e) 500), db)"
    using eq notes_try_post_title_rejected [OF a(1) b] by simp
next
  assume a: "request_method (request_of ctx) = ''POST''"
    "headers_get (request_of ctx) ''X-User-Session'' = Some s" "s \<noteq> []"
    and b: "request_json (request_of ctx) = Inr b" "destructure b ''title'' = Inr t"
    "destructure b ''content'' = Inr c" "d1_bind (title_or_default t) = Inr tv"
    and c: "d1_outage db = None" "d1_bind c = Inr cv"
  note eq = d1_onRequest_runs_try [OF a(2,3), of amb db]
  show "status_of (fst (d1_onRequest amb ctx db)) = Some 201"
    using eq notes_try_post_inserts(1) [OF a(1) c(1) b c(2)] by simp
  show "notes_table (snd (d1_onRequest amb ctx db))
             = notes_table db
               @ [\<lparr>row_id = randomUUID amb, row_user_session_id = s, row_title = tv,
                   row_content = cv, row_created_at = Date_now amb\<rparr>]"
    using eq notes_try_post_inserts(2) [OF a(1) c(1) b c(2)] by simp
next
  assume a: "request_method (request_of ctx) = ''POST''"
    "headers_get (request_of ctx) ''X-User-Session'' = Some s" "s \<noteq> []"
    and b: "request_json (request_of ctx) = Inr b" "destructure b ''title'' = Inr t"
    "destructure b ''content'' = Inr c" "d1_bind (title_or_default t) = Inr tv"
    and c: "d1_bind c = Inl e"
  note eq = d1_onRequest_runs_try [OF a(2,3), of amb db]
  show "d1_onRequest amb ctx db
           = (Responded (d1_errorResponse (''Database error: '' @ message e) 500), db)"
    using eq notes_try_post_rejected [OF a(1) b c] by simp
next
  assume a: "request_method (request_of ctx) = ''POST''"
    "headers_get (request_of ctx) ''X-User-Session'' = Some s" "s \<noteq> []"
    and b: "request_json (request_of ctx) = Inr b" "destructure b ''title'' = Inr t"
    "destructure b ''content'' = Inr c" "d1_bind (title_or_default t) = Inl e"
  note eq = d1_onRequest_runs_try [OF a(2,3), of amb db]
  show "d1_onRequest amb ctx db
           = (Responded (d1_errorResponse (''Database error: '' @ message e) 500), db)"
    using eq notes_try_post_title_rejected [OF a(1) b] by simp
qed

theorem create_validation_witness:
  "sw_fetch ex_amb
      \<lparr>request_method = ''POST'', pathname = ''/api/notes'',
        headers = [(''X-User-Token'', ''u''), (''X-User-Session'', ''s'')],
        body = Stringified (JObj [(''content'', JNum 5)])\<rparr> ex_env
     = (Responded (kv_errorResponse cors_headers msg_content_string 400), ex_env)
   \<and> status_of (fst (pf_onRequest ex_amb
      \<lparr>request_method = ''POST'', pathname = ''/api/notes'',
        headers = [(''X-User-Token'', ''u''), (''X-User-Session'', ''s'')],
        body = Stringified (JObj [(''content'', JNum 5)])\<rparr> ex_env)) = Some 400
   \<and> snd (pf_onRequest ex_amb
      \<lparr>request_method = ''POST'', pathname = ''/api/notes'',
        headers = [(''X-User-Token'', ''u''), (''X-User-Session'', ''s'')],
        body = Stringified (JObj [(''content'', JNum 5)])\<rparr> ex_env) = ex_env
   \<and> status_of (fst (d1_handleRequest ex_amb
      \<lparr>request_method = ''POST'', pathname = ''/api/notes'',
        headers = [(''X-User-Token'', ''u''), (''X-User-Session'', ''s'')],
        body = Stringified (JObj [(''content'', JNum 5)])\<rparr> ex_db)) = Some 201
   \<and> map row_content (notes_table (snd (d1_handleRequest ex_amb
      \<lparr>request_method = ''POST'', pathname = ''/api/notes'',
        headers = [(''X-User-Token'', ''u''), (''X-User-Session'', ''s'')],
        body = Stringified (JObj [(''content'', JNum 5)])\<rparr> ex_db)))
     = [SText ''buy milk'', SInt 5]
   \<and> sw_fetch ex_amb
      \<lparr>request_method = ''POST'', pathname = ''/api/notes'',
        headers = [(''X-User-Token'', ''u''), (''X-User-Session'', ''s'')],
        body = Unparseable ''Unexpected token h in JSON at position 0''\<rparr> ex_env
     = (Threw (SyntaxError ''Unexpected token h in JSON at position 0''), ex_env)
   \<and> status_of (fst (d1_handleRequest ex_amb
      \<lparr>request_method = ''POST'', pathname = ''/api/notes'',
        headers = [(''X-User-Token'', ''u''), (''X-User-Session'', ''s'')],
        body = Stringified (JObj [(''title'', JStr ''list'')])\<rparr> ex_db)) = Some 500
   \<and> snd (d1_handleRequest ex_amb
      \<lparr>request_method = ''POST'', pathname = ''/api/notes'',
        headers = [(''X-User-Token'', ''u''), (''X-User-Session'', ''s'')],
        body = Stringified (JObj [(''title'', JStr ''list'')])\<rparr> ex_db) = ex_db"
  using create_validation
    [where req = "\<lparr>request_method = ''POST'', pathname = ''/api/notes'',
        headers = [(''X-User-Token'', ''u''), (''X-User-Session'', ''s'')],
        body = Stringified (JObj [(''content'', JNum 5)])\<rparr>"
       and amb = ex_amb and env = ex_env and db = ex_db and u = "''u''" and s = "''s''"
       and g = None and t = None and tv = "SText untitled" and cv = "SInt 5"
       and b = "JObj [(''content'', JNum 5)]" and c = "Some (JNum 5)"]
    create_validation
    [where req = "\<lparr>request_method = ''POST'', pathname = ''/api/notes'',
        headers = [(''X-User-Token'', ''u''), (''X-User-Session'', ''s'')],
        body = Unparseable ''Unexpected token h in JSON at position 0''\<rparr>"
       and amb = ex_amb and env = ex_env and db = ex_db and u = "''u''"
       and e = "SyntaxError ''Unexpected token h in JSON at position 0''"]
    create_validation
    [where req = "\<lparr>request_method = ''POST'', pathname = ''/api/notes'',
        headers = [(''X-User-Token'', ''u''), (''X-User-Session'', ''s'')],
        body = Stringified (JObj [(''title'', JStr ''list'')])\<rparr>"
       and amb = ex_amb and env = ex_env and db = ex_db and u = "''u''" and s = "''s''"
       and g = None and t = "Some (JStr ''list'')" and tv = "SText ''list''"
       and b = "JObj [(''title'', JStr ''list'')]" and c = None
       and e = "D1_TYPE_ERROR ''undefined'' ''undefined''"]
  by (simp add: request_defs ex_defs match_notes_path_def title_or_default_def)

section \<open>Faults of the backend\<close>
















lemma list_loop_malformed:
  assumes "kv_outage env = None" and "k \<in> set ks"
    and "map_of (entries env) k = Some (Unparseable msg)"
  shows "\<exists>e. fst (list_loop ks acc env) = Inl e"
  using assms
proof (induction ks arbitrary: acc env)
  case Nil
  then show ?case by simp
next
  case (Cons k' ks)
  let ?env1 = "kv_called (KvGet k') env"
  have get: "NOTES_KV_get k' env = (Inr (map_of (entries env) k'), ?env1)"
    using Cons.prems(1) by (simp add: NOTES_KV_get_def)
  have env1: "kv_outage ?env1 = None" "map_of (entries ?env1) k = Some (Unparseable msg)"
    using Cons.prems by (simp_all add: kv_called_def)
  show ?case
  proof (cases "k' = k")
    case True
    then show ?thesis using get Cons.prems(3) by simp
  next
    case False
    then have "k \<in> set ks" using Cons.prems(2) by simp
    then have ih: "\<exists>e. fst (list_loop ks ns ?env1) = Inl e" for ns
      using Cons.IH [of ?env1 ns] env1 by simp
    show ?thesis
      using get ih by (auto split: option.splits sum.splits)
  qed
qed




end
